theory Spec2Isabelle
  imports Complex_Main "HOL-Library.Log_Nat"
begin

section \<open>Values, exceptions and the outside world\<close>

text \<open>
  Both scripts handle decoded JSON and CSV cells, which Python leaves untyped. A value is
  one of the shapes \<^verbatim>\<open>json.load\<close> and \<^verbatim>\<open>csv.DictReader\<close> deliver: \<^verbatim>\<open>None\<close>,
  a boolean, an integer, a float, a string, a list or a dictionary (an association list in
  key order, keys distinct). A float is a rational (every finite float is one), the
  negative zero, an infinity or the value that is not a number. A string is a list of
  code points below 256. What the scripts print is not modelled.
\<close>

datatype pyfloat =
    Finite rat
  | NegZero
  | PosInf
  | NegInf
  | NaN

datatype json =
    JNull
  | JBool bool
  | JInt int
  | JFloat pyfloat
  | JStr string
  | JArr "json list"
  | JObj "(string \<times> json) list"

datatype pyerr =
    URLError
  | JSONDecodeError
  | AttributeError
  | TypeError
  | ValueError
  | IndexError
  | OverflowError

text \<open>
  The three HTTP operations of the scripts. \<open>FetchPage offset limit\<close> is the request of
  \<^verbatim>\<open>fetch_page\<close>, \<open>Project points\<close> the one of \<^verbatim>\<open>project_points\<close>, and
  \<open>Reverse lon lat\<close> the one of \<^verbatim>\<open>reverse_geocode\<close>.
\<close>

datatype request =
    FetchPage nat nat
  | Project "json list"
  | Reverse json json

text \<open>
  Every effect other than the CSV output is an event of a trace: a request together with
  what \<^verbatim>\<open>urlopen\<close> and \<^verbatim>\<open>json.load\<close> gave back (the decoded body, or the exception
  raised), or a call of \<^verbatim>\<open>time.sleep\<close>. The services are an oracle that answers a request
  knowing the whole trace so far, so that an answer may depend on every earlier request.
\<close>

datatype event =
    Call request "pyerr + json"
  | Sleep rat

type_synonym trace = "event list"
type_synonym net = "trace \<Rightarrow> request \<Rightarrow> pyerr + json"
type_synonym row = "(string \<times> json) list"

definition urlopen :: "net \<Rightarrow> request \<Rightarrow> trace \<Rightarrow> (pyerr + json) \<times> trace" where
  "urlopen srv req tr = (srv tr req, tr @ [Call req (srv tr req)])"

subsection \<open>Python's dynamic operations\<close>

fun truthy :: "json \<Rightarrow> bool" where
  "truthy JNull = False"
| "truthy (JBool b) = b"
| "truthy (JInt i) = (i \<noteq> 0)"
| "truthy (JFloat f) = (f \<noteq> Finite 0 \<and> f \<noteq> NegZero)"
| "truthy (JStr s) = (s \<noteq> [])"
| "truthy (JArr xs) = (xs \<noteq> [])"
| "truthy (JObj kvs) = (kvs \<noteq> [])"

definition py_or :: "json \<Rightarrow> json \<Rightarrow> json" where
  "py_or a b = (if truthy a then a else b)"

text \<open>\<^verbatim>\<open>d.get(k, default)\<close>: only a dictionary has the method.\<close>

fun py_get :: "json \<Rightarrow> string \<Rightarrow> json \<Rightarrow> pyerr + json" where
  "py_get (JObj kvs) k d = Inr (case map_of kvs k of None \<Rightarrow> d | Some v \<Rightarrow> v)"
| "py_get _ k d = Inl AttributeError"

text \<open>Iterating a value, as \<^verbatim>\<open>list.extend\<close> and \<^verbatim>\<open>len\<close> see it.\<close>

fun py_iter :: "json \<Rightarrow> pyerr + json list" where
  "py_iter (JArr xs) = Inr xs"
| "py_iter (JStr s) = Inr (map (\<lambda>c. JStr [c]) s)"
| "py_iter (JObj kvs) = Inr (map (\<lambda>kv. JStr (fst kv)) kvs)"
| "py_iter _ = Inl TypeError"

subsection \<open>Numbers in print\<close>

text \<open>The decimal digits of a natural number.\<close>

fun digits :: "nat \<Rightarrow> string" where
  "digits n =
     (if n < 10 then [''0123456789'' ! n]
      else digits (n div 10) @ [''0123456789'' ! (n mod 10)])"

declare digits.simps [simp del]

text \<open>
  The format \<^verbatim>\<open>.6f\<close> of a float: its exact value rounded to a whole number of
  millionths, a tie going to the even one, in fixed notation with six decimals; the sign
  is that of the float, also when it rounds to zero.
\<close>

definition round_half_even :: "rat \<Rightarrow> int" where
  "round_half_even x =
     (if x - of_int \<lfloor>x\<rfloor> > 1 / 2 \<or> (x - of_int \<lfloor>x\<rfloor> = 1 / 2 \<and> odd \<lfloor>x\<rfloor>)
      then \<lfloor>x\<rfloor> + 1 else \<lfloor>x\<rfloor>)"

definition micros :: "rat \<Rightarrow> nat" where
  "micros r = nat (round_half_even (r * 1000000))"

definition show6 :: "nat \<Rightarrow> string" where
  "show6 n =
     digits (n div 1000000) @ ''.'' @
     drop (length (digits (n mod 1000000))) ''000000'' @ digits (n mod 1000000)"

fun fmt6 :: "pyfloat \<Rightarrow> string" where
  "fmt6 (Finite r) = (if r < 0 then ''-'' @ show6 (micros (- r)) else show6 (micros r))"
| "fmt6 NegZero = ''-0.000000''"
| "fmt6 PosInf = ''inf''"
| "fmt6 NegInf = ''-inf''"
| "fmt6 NaN = ''nan''"

text \<open>
  \<^verbatim>\<open>float(i)\<close> of an integer: the nearest float, a tie going to the even mantissa of 53
  bits, and \<^verbatim>\<open>OverflowError\<close> (here \<open>None\<close>) when that is beyond the largest float.
\<close>

definition int_to_float :: "int \<Rightarrow> pyfloat option" where
  "int_to_float i =
     (let m = nat \<bar>i\<bar>
      in if m < 2 ^ 53 then Some (Finite (of_int i))
         else let e = floorlog 2 m - 53;
                  q = m div 2 ^ e;
                  r = m mod 2 ^ e;
                  q' = (if 2 * r > 2 ^ e \<or> (2 * r = 2 ^ e \<and> odd q) then q + 1 else q)
              in if q' * 2 ^ e \<ge> 2 ^ 1024 then None
                 else Some (Finite (of_int (sgn i * int (q' * 2 ^ e)))))"

section \<open>Reverse geocoding\<close>

text \<open>
  Lines 76-82 of \<^verbatim>\<open>main.py\<close> and 30-36 of \<^verbatim>\<open>fill_missing_rues.py\<close>, the same text in
  both: the label of a decoded response.
\<close>

definition response_label :: "json \<Rightarrow> pyerr + json" where
  "response_label data =
     (case py_get data ''address'' JNull of
        Inl e \<Rightarrow> Inl e
      | Inr a \<Rightarrow>
          let addr = py_or a (JObj []) in
          (case py_get addr ''LongLabel'' JNull of
             Inl e \<Rightarrow> Inl e
           | Inr l1 \<Rightarrow>
               if truthy l1 then Inr l1
               else (case py_get addr ''Address'' JNull of
                  Inl e \<Rightarrow> Inl e
                | Inr l2 \<Rightarrow>
                    if truthy l2 then Inr l2
                    else (case py_get addr ''Match_addr'' JNull of
                       Inl e \<Rightarrow> Inl e
                     | Inr l3 \<Rightarrow> Inr (py_or l3 (JStr ''''))))))"

text \<open>The body of a \<^verbatim>\<open>try\<close> block of either script: one request, then the label.\<close>

definition attempt :: "net \<Rightarrow> json \<Rightarrow> json \<Rightarrow> trace \<Rightarrow> (pyerr + json) \<times> trace" where
  "attempt srv lon lat tr =
     (case urlopen srv (Reverse lon lat) tr of
        (Inl e, tr') \<Rightarrow> (Inl e, tr')
      | (Inr data, tr') \<Rightarrow> (response_label data, tr'))"

subsection \<open>The sync script\<close>

text \<open>
  \<^verbatim>\<open>format(v, ".6f")\<close>: a float is printed; an integer or a boolean is made a float
  first, which raises \<^verbatim>\<open>OverflowError\<close> on an integer beyond the floats; a string raises
  \<^verbatim>\<open>ValueError\<close> and any other value \<^verbatim>\<open>TypeError\<close>.
\<close>

fun format_6f :: "json \<Rightarrow> pyerr + string" where
  "format_6f (JFloat f) = Inr (fmt6 f)"
| "format_6f (JInt i) =
     (case int_to_float i of None \<Rightarrow> Inl OverflowError | Some f \<Rightarrow> Inr (fmt6 f))"
| "format_6f (JBool b) = Inr (fmt6 (Finite (if b then 1 else 0)))"
| "format_6f (JStr s) = Inl ValueError"
| "format_6f _ = Inl TypeError"

definition cache_key :: "json \<Rightarrow> json \<Rightarrow> pyerr + string" where
  "cache_key lon lat =
     (case format_6f lon of
        Inl e \<Rightarrow> Inl e
      | Inr a \<Rightarrow> (case format_6f lat of
           Inl e \<Rightarrow> Inl e
         | Inr b \<Rightarrow> Inr (a @ '','' @ b)))"

text \<open>
  \<^verbatim>\<open>reverse_geocode(lon, lat, cache)\<close> of \<^verbatim>\<open>main.py\<close>. The result is the exception
  raised, or the label with the cache and the trace as the call leaves them.
\<close>

definition reverse_geocode ::
  "net \<Rightarrow> json \<Rightarrow> json \<Rightarrow> (string \<rightharpoonup> json) \<Rightarrow> trace
     \<Rightarrow> pyerr + (json \<times> (string \<rightharpoonup> json) \<times> trace)" where
  "reverse_geocode srv lon lat cache tr =
     (if lon = JNull \<or> lat = JNull then Inr (JStr '''', cache, tr)
      else (case cache_key lon lat of
         Inl e \<Rightarrow> Inl e
       | Inr key \<Rightarrow>
           (case cache key of
              Some label \<Rightarrow> Inr (label, cache, tr)
            | None \<Rightarrow>
                (case attempt srv lon lat tr of
                   (Inr label, tr') \<Rightarrow> Inr (label, cache(key \<mapsto> label), tr')
                 | (Inl e, tr') \<Rightarrow> Inr (JStr '''', cache(key \<mapsto> JStr ''''), tr')))))"


subsection \<open>The repair script's retries\<close>

definition MAX_RETRIES :: nat where
  "MAX_RETRIES = 3"

text \<open>
  The loop \<^verbatim>\<open>for attempt in range(1, MAX_RETRIES + 1)\<close> of \<^verbatim>\<open>fill_missing_rues.py\<close>
  over the attempts still to make. A failed attempt that is not the last sleeps
  \<^verbatim>\<open>0.5 * attempt\<close> seconds; the message printed on the last failure is not modelled.
\<close>

fun retry_loop :: "net \<Rightarrow> json \<Rightarrow> json \<Rightarrow> nat list \<Rightarrow> trace \<Rightarrow> json \<times> trace" where
  "retry_loop srv lon lat [] tr = (JStr '''', tr)"
| "retry_loop srv lon lat (n # ns) tr =
     (case attempt srv lon lat tr of
        (Inr label, tr') \<Rightarrow> (label, tr')
      | (Inl e, tr') \<Rightarrow>
          if n = MAX_RETRIES then (JStr '''', tr')
          else retry_loop srv lon lat ns (tr' @ [Sleep (1 / 2 * of_nat n)]))"

definition reverse_geocode_retry :: "net \<Rightarrow> json \<Rightarrow> json \<Rightarrow> trace \<Rightarrow> json \<times> trace" where
  "reverse_geocode_retry srv lon lat tr =
     retry_loop srv lon lat [1 ..< MAX_RETRIES + 1] tr"

section \<open>The repair script\<close>

definition SLEEP_SECONDS :: rat where
  "SLEEP_SECONDS = 8 / 100"

definition MISSING_RUE :: string where
  "MISSING_RUE = ''MISSING_RUE''"

text \<open>
  \<^verbatim>\<open>str.strip\<close> and \<^verbatim>\<open>str.upper\<close> on code points below 256. The capital of the sharp
  s is two letters; the capitals of U+00B5 and U+00FF lie beyond 256, and these two are left
  as they are.
\<close>

definition isspace :: "char \<Rightarrow> bool" where
  "isspace c = ((of_char c :: nat) \<in> {9, 10, 11, 12, 13, 28, 29, 30, 31, 32, 133, 160})"

definition strip :: "string \<Rightarrow> string" where
  "strip s = rev (dropWhile isspace (rev (dropWhile isspace s)))"

definition upper_char :: "char \<Rightarrow> string" where
  "upper_char c =
     (case map_of (zip ''abcdefghijklmnopqrstuvwxyz'' ''ABCDEFGHIJKLMNOPQRSTUVWXYZ'') c of
        Some u \<Rightarrow> [u]
      | None \<Rightarrow>
          if (of_char c :: nat) = 223 then ''SS''
          else if 224 \<le> (of_char c :: nat) \<and> (of_char c :: nat) \<le> 254 \<and>
                  (of_char c :: nat) \<noteq> 247
          then [char_of ((of_char c :: nat) - 32)]
          else [c])"

definition upper :: "string \<Rightarrow> string" where
  "upper s = concat (map upper_char s)"

fun py_strip :: "json \<Rightarrow> pyerr + string" where
  "py_strip (JStr s) = Inr (strip s)"
| "py_strip _ = Inl AttributeError"

text \<open>
  \<^verbatim>\<open>float(v)\<close>. What float a string denotes is the parameter \<open>float_of\<close>, \<open>None\<close> where
  Python raises \<^verbatim>\<open>ValueError\<close>.
\<close>

fun py_float :: "(string \<Rightarrow> pyfloat option) \<Rightarrow> json \<Rightarrow> pyerr + pyfloat" where
  "py_float float_of (JStr s) =
     (case float_of s of None \<Rightarrow> Inl ValueError | Some f \<Rightarrow> Inr f)"
| "py_float float_of (JFloat f) = Inr f"
| "py_float float_of (JInt i) =
     (case int_to_float i of None \<Rightarrow> Inl OverflowError | Some f \<Rightarrow> Inr f)"
| "py_float float_of (JBool b) = Inr (Finite (if b then 1 else 0))"
| "py_float float_of _ = Inl TypeError"

text \<open>\<^verbatim>\<open>float(v) if v not in (None, "", "None") else None\<close>\<close>

definition float_or_none ::
  "(string \<Rightarrow> pyfloat option) \<Rightarrow> json \<Rightarrow> pyerr + pyfloat option" where
  "float_or_none float_of v =
     (if v \<in> {JNull, JStr '''', JStr ''None''} then Inr None
      else (case py_float float_of v of Inl e \<Rightarrow> Inl e | Inr f \<Rightarrow> Inr (Some f)))"

text \<open>
  Lines 62-66: both conversions inside one \<^verbatim>\<open>try\<close>, whose handler catches
  \<^verbatim>\<open>ValueError\<close> only and then gives up both coordinates.
\<close>

definition parse_coords ::
  "(string \<Rightarrow> pyfloat option) \<Rightarrow> json \<Rightarrow> json
     \<Rightarrow> pyerr + (pyfloat option \<times> pyfloat option)" where
  "parse_coords float_of lon lat =
     (case float_or_none float_of lon of
        Inl e \<Rightarrow> (if e = ValueError then Inr (None, None) else Inl e)
      | Inr lon_f \<Rightarrow>
          (case float_or_none float_of lat of
             Inl e \<Rightarrow> (if e = ValueError then Inr (None, None) else Inl e)
           | Inr lat_f \<Rightarrow> Inr (lon_f, lat_f)))"

text \<open>\<^verbatim>\<open>row.get(k, default)\<close> and \<^verbatim>\<open>row[k] = v\<close> on a dictionary in key order.\<close>

definition row_get :: "row \<Rightarrow> string \<Rightarrow> json \<Rightarrow> json" where
  "row_get r k d = (case map_of r k of None \<Rightarrow> d | Some v \<Rightarrow> v)"

fun row_set :: "row \<Rightarrow> string \<Rightarrow> json \<Rightarrow> row" where
  "row_set [] k v = [(k, v)]"
| "row_set ((k', v') # r) k v = (if k' = k then (k, v) # r else (k', v') # row_set r k v)"

text \<open>
  The body of the loop over the rows (lines 54-74). The result is the exception raised, or
  the row and the trace as the iteration leaves them.
\<close>

definition repair_row ::
  "(string \<Rightarrow> pyfloat option) \<Rightarrow> net \<Rightarrow> row \<Rightarrow> trace \<Rightarrow> pyerr + (row \<times> trace)" where
  "repair_row float_of srv row tr =
     (case py_strip (row_get row ''RUE_REVERSE'' (JStr '''')) of
        Inl e \<Rightarrow> Inl e
      | Inr rue \<Rightarrow>
          let lon = row_get row ''LON_WGS84'' JNull;
              lat = row_get row ''LAT_WGS84'' JNull
          in if rue \<noteq> '''' \<and> upper rue \<noteq> MISSING_RUE then Inr (row, tr)
             else (case parse_coords float_of lon lat of
                Inl e \<Rightarrow> Inl e
              | Inr (Some lon_f, Some lat_f) \<Rightarrow>
                  (case reverse_geocode_retry srv (JFloat lon_f) (JFloat lat_f) tr of
                     (label, tr') \<Rightarrow>
                       Inr (if truthy label then row_set row ''RUE_REVERSE'' label else row,
                            tr' @ [Sleep SLEEP_SECONDS]))
              | Inr _ \<Rightarrow> Inr (row, tr)))"

fun repair_rows ::
  "(string \<Rightarrow> pyfloat option) \<Rightarrow> net \<Rightarrow> row list \<Rightarrow> trace \<Rightarrow> (pyerr + row list) \<times> trace" where
  "repair_rows float_of srv [] tr = (Inr [], tr)"
| "repair_rows float_of srv (row # rows) tr =
     (case repair_row float_of srv row tr of
        Inl e \<Rightarrow> (Inl e, tr)
      | Inr (row', tr') \<Rightarrow>
          (case repair_rows float_of srv rows tr' of
             (Inl e, tr'') \<Rightarrow> (Inl e, tr'')
           | (Inr rows', tr'') \<Rightarrow> (Inr (row' # rows'), tr'')))"

text \<open>
  What a run leaves behind: the exception that ended it, if any; the CSV file, \<open>None\<close>
  while it has not been opened for writing and otherwise the field names and the rows
  written so far; and the trace.
\<close>

record 'r outcome =
  raised :: "pyerr option"
  written :: "(string list \<times> 'r list) option"
  events :: trace

text \<open>
  \<^verbatim>\<open>csv.DictWriter\<close> with its default \<^verbatim>\<open>extrasaction\<close> raises \<^verbatim>\<open>ValueError\<close> at a row
  with a key that is not a field name; the rows before it are in the file by then.
\<close>

definition fits :: "string list \<Rightarrow> row \<Rightarrow> bool" where
  "fits fieldnames r = (set (map fst r) \<subseteq> set fieldnames)"

definition write_csv :: "string list \<Rightarrow> row list \<Rightarrow> trace \<Rightarrow> row outcome" where
  "write_csv fieldnames rows tr =
     \<lparr>raised = (if list_all (fits fieldnames) rows then None else Some ValueError),
      written = Some (fieldnames, takeWhile (fits fieldnames) rows),
      events = tr\<rparr>"

text \<open>
  \<^verbatim>\<open>main()\<close> of \<^verbatim>\<open>fill_missing_rues.py\<close> on the rows \<^verbatim>\<open>csv.DictReader\<close> delivers.
  \<^verbatim>\<open>header\<close> is a view of the keys of the first row, read when the file is written.
\<close>

definition fill_main :: "(string \<Rightarrow> pyfloat option) \<Rightarrow> net \<Rightarrow> row list \<Rightarrow> row outcome" where
  "fill_main float_of srv rows =
     (case rows of
        [] \<Rightarrow> \<lparr>raised = Some IndexError, written = None, events = []\<rparr>
      | _ # _ \<Rightarrow>
          (case repair_rows float_of srv rows [] of
             (Inl e, tr) \<Rightarrow> \<lparr>raised = Some e, written = None, events = tr\<rparr>
           | (Inr rows', tr) \<Rightarrow> write_csv (map fst (hd rows')) rows' tr))"

section \<open>The sync script\<close>

definition PAGE_SIZE :: nat where
  "PAGE_SIZE = 500"

definition batch_size :: nat where
  "batch_size = 200"

definition fetch_page :: "net \<Rightarrow> nat \<Rightarrow> nat \<Rightarrow> trace \<Rightarrow> (pyerr + json) \<times> trace" where
  "fetch_page srv offset limit tr = urlopen srv (FetchPage offset limit) tr"

text \<open>
  The loop \<^verbatim>\<open>while True\<close> of \<^verbatim>\<open>main\<close> (lines 107-115), from the state
  \<^verbatim>\<open>all_features\<close>, \<^verbatim>\<open>offset\<close>. Nothing bounds the number of its iterations, so a run
  that never leaves the loop has the value \<open>None\<close>.
\<close>

partial_function (option) fetch_loop ::
  "net \<Rightarrow> json list \<Rightarrow> nat \<Rightarrow> trace \<Rightarrow> ((pyerr + json list) \<times> trace) option" where
  "fetch_loop srv all_features offset tr =
     (case fetch_page srv offset PAGE_SIZE tr of
        (Inl e, tr') \<Rightarrow> Some (Inl e, tr')
      | (Inr data, tr') \<Rightarrow>
          (case py_get data ''features'' (JArr []) of
             Inl e \<Rightarrow> Some (Inl e, tr')
           | Inr features \<Rightarrow>
               if \<not> truthy features then Some (Inr all_features, tr')
               else (case py_iter features of
                  Inl e \<Rightarrow> Some (Inl e, tr')
                | Inr fs \<Rightarrow>
                    if length fs < PAGE_SIZE then Some (Inr (all_features @ fs), tr')
                    else fetch_loop srv (all_features @ fs) (offset + length fs) tr')))"

text \<open>\<^verbatim>\<open>project_points(points)\<close>: what it returns, a list when the service keeps its format.\<close>

definition project_points :: "net \<Rightarrow> json list \<Rightarrow> trace \<Rightarrow> (pyerr + json) \<times> trace" where
  "project_points srv points tr =
     (if points = [] then (Inr (JArr []), tr)
      else (case urlopen srv (Project points) tr of
         (Inl e, tr') \<Rightarrow> (Inl e, tr')
       | (Inr data, tr') \<Rightarrow> (py_get data ''geometries'' (JArr []), tr')))"

text \<open>\<^verbatim>\<open>range(0, n, step)\<close> and the loop of lines 124-125 over it.\<close>

definition range_step :: "nat \<Rightarrow> nat \<Rightarrow> nat list" where
  "range_step n step = map (\<lambda>k. k * step) [0 ..< (n + step - 1) div step]"

fun project_loop ::
  "net \<Rightarrow> json list \<Rightarrow> nat list \<Rightarrow> json list \<Rightarrow> trace \<Rightarrow> (pyerr + json list) \<times> trace" where
  "project_loop srv points [] projected tr = (Inr projected, tr)"
| "project_loop srv points (i # is) projected tr =
     (case project_points srv (take batch_size (drop i points)) tr of
        (Inl e, tr') \<Rightarrow> (Inl e, tr')
      | (Inr geoms, tr') \<Rightarrow>
          (case py_iter geoms of
             Inl e \<Rightarrow> (Inl e, tr')
           | Inr gs \<Rightarrow> project_loop srv points is (projected @ gs) tr'))"

definition project_all :: "net \<Rightarrow> json list \<Rightarrow> trace \<Rightarrow> (pyerr + json list) \<times> trace" where
  "project_all srv points tr =
     project_loop srv points (range_step (length points) batch_size) [] tr"

text \<open>One element of the list comprehension of lines 118-121.\<close>

definition point_of :: "json \<Rightarrow> pyerr + json" where
  "point_of f =
     (case py_get f ''geometry'' (JObj []) of
        Inl e \<Rightarrow> Inl e
      | Inr g \<Rightarrow>
          (case py_get g ''x'' JNull of
             Inl e \<Rightarrow> Inl e
           | Inr x \<Rightarrow>
               (case py_get g ''y'' JNull of
                  Inl e \<Rightarrow> Inl e
                | Inr y \<Rightarrow> Inr (JObj [(''x'', x), (''y'', y)]))))"

fun map_err :: "('a \<Rightarrow> pyerr + 'b) \<Rightarrow> 'a list \<Rightarrow> pyerr + 'b list" where
  "map_err f [] = Inr []"
| "map_err f (x # xs) =
     (case f x of
        Inl e \<Rightarrow> Inl e
      | Inr y \<Rightarrow> (case map_err f xs of Inl e \<Rightarrow> Inl e | Inr ys \<Rightarrow> Inr (y # ys)))"

text \<open>
  \<^verbatim>\<open>ms_to_iso(ms)\<close>. What
  \<^verbatim>\<open>dt.datetime.utcfromtimestamp(ms / 1000).isoformat()\<close> gives for a value that is not
  \<^verbatim>\<open>None\<close>, a text or an exception, is the parameter \<open>utc_iso\<close>.
\<close>

definition ms_to_iso :: "(json \<Rightarrow> pyerr + string) \<Rightarrow> json \<Rightarrow> pyerr + string" where
  "ms_to_iso utc_iso ms = (if ms = JNull then Inr '''' else utc_iso ms)"

text \<open>
  \<^verbatim>\<open>load_existing()\<close> on the rows \<^verbatim>\<open>csv.DictReader\<close> delivers, \<open>None\<close> when there is
  no file. A later row replaces an earlier one of the same \<^verbatim>\<open>OBJECTID\<close>.
\<close>

definition load_existing :: "row list option \<Rightarrow> (json \<rightharpoonup> row)" where
  "load_existing file =
     (case file of
        None \<Rightarrow> Map.empty
      | Some rows \<Rightarrow>
          foldl (\<lambda>cache row. cache(row_get row ''OBJECTID'' (JStr '''') \<mapsto> row)) Map.empty rows)"

fun as_dict :: "json \<Rightarrow> pyerr + row" where
  "as_dict (JObj kvs) = Inr kvs"
| "as_dict _ = Inl AttributeError"

definition none_to_empty :: "json \<Rightarrow> json" where
  "none_to_empty v = (if v = JNull then JStr '''' else v)"

text \<open>
  Lines 148-157: the coordinates and the label of a feature, from the row of the earlier
  output when there is one and from the projection and the geocoder otherwise.
\<close>

definition merge_existing ::
  "net \<Rightarrow> (json \<rightharpoonup> row) \<Rightarrow> json list \<Rightarrow> nat \<Rightarrow> string \<Rightarrow> (string \<rightharpoonup> json) \<Rightarrow> trace
     \<Rightarrow> pyerr + (json \<times> json \<times> json \<times> (string \<rightharpoonup> json) \<times> trace)" where
  "merge_existing srv existing_rows projected idx objectid cache tr =
     (let existing = (case existing_rows (JStr objectid) of None \<Rightarrow> [] | Some r \<Rightarrow> r)
      in if existing \<noteq> []
         then Inr (py_or (row_get existing ''LON_WGS84'' JNull) (JStr ''''),
                   py_or (row_get existing ''LAT_WGS84'' JNull) (JStr ''''),
                   py_or (row_get existing ''RUE_REVERSE'' JNull) (JStr ''''),
                   cache, tr)
         else (case as_dict (if idx < length projected then projected ! idx else JObj []) of
            Inl e \<Rightarrow> Inl e
          | Inr wgs84 \<Rightarrow>
              let lon = row_get wgs84 ''x'' JNull;
                  lat = row_get wgs84 ''y'' JNull
              in (case reverse_geocode srv lon lat cache tr of
                    Inl e \<Rightarrow> Inl e
                  | Inr (street_label, cache', tr') \<Rightarrow>
                      Inr (lon, lat, street_label, cache', tr'))))"

text \<open>
  The body of the loop over the features (lines 145-171): the exception raised with the
  trace at that moment, or the cells of the row written with the cache and the trace as
  the iteration leaves them. Whatever raises before the lookup of line 157 leaves the
  trace as it was; what raises after it has the requests of the lookup behind it.
  \<open>str_of\<close> is \<^verbatim>\<open>str\<close>.
\<close>

definition feature_row ::
  "(json \<Rightarrow> string) \<Rightarrow> (json \<Rightarrow> pyerr + string) \<Rightarrow> net
     \<Rightarrow> (json \<rightharpoonup> row) \<Rightarrow> json list \<Rightarrow> nat \<Rightarrow> json \<Rightarrow> (string \<rightharpoonup> json) \<Rightarrow> trace
     \<Rightarrow> (pyerr \<times> trace) + (json list \<times> (string \<rightharpoonup> json) \<times> trace)" where
  "feature_row str_of utc_iso srv existing_rows projected idx feat cache tr =
     (case py_get feat ''attributes'' (JObj []) of
        Inl e \<Rightarrow> Inl (e, tr)
      | Inr a \<Rightarrow>
     (case py_get feat ''geometry'' (JObj []) of
        Inl e \<Rightarrow> Inl (e, tr)
      | Inr g \<Rightarrow>
     (case as_dict a of
        Inl e \<Rightarrow> Inl (e, tr)
      | Inr attrs \<Rightarrow>
          let objectid = str_of (row_get attrs ''OBJECTID'' (JStr ''''))
          in
     (case merge_existing srv existing_rows projected idx objectid cache tr of
        Inl e \<Rightarrow> Inl (e, tr)
      | Inr (lon, lat, street_label, cache', tr') \<Rightarrow>
     (case ms_to_iso utc_iso (row_get attrs ''DATE_MAJ'' JNull) of
        Inl e \<Rightarrow> Inl (e, tr')
      | Inr date_maj_iso \<Rightarrow>
     (case as_dict (py_or g (JObj [])) of
        Inl e \<Rightarrow> Inl (e, tr')
      | Inr geom \<Rightarrow>
          Inr ([row_get attrs ''STATION_NO'' (JStr ''''),
                row_get attrs ''STATUT'' (JStr ''''),
                JStr date_maj_iso,
                row_get attrs ''STATIONNEMENT'' (JStr ''''),
                JStr objectid,
                row_get geom ''x'' (JStr ''''),
                row_get geom ''y'' (JStr ''''),
                none_to_empty lon,
                none_to_empty lat,
                street_label], cache', tr')))))))"

text \<open>
  The loop of line 144 from index \<open>idx\<close> on: the exception that ended it, if any, the rows
  written, and the trace.
\<close>

fun write_loop ::
  "(json \<Rightarrow> string) \<Rightarrow> (json \<Rightarrow> pyerr + string) \<Rightarrow> net
     \<Rightarrow> (json \<rightharpoonup> row) \<Rightarrow> json list \<Rightarrow> nat \<Rightarrow> json list \<Rightarrow> (string \<rightharpoonup> json) \<Rightarrow> trace
     \<Rightarrow> pyerr option \<times> json list list \<times> trace" where
  "write_loop str_of utc_iso srv existing_rows projected idx [] cache tr = (None, [], tr)"
| "write_loop str_of utc_iso srv existing_rows projected idx (feat # feats) cache tr =
     (case feature_row str_of utc_iso srv existing_rows projected idx feat cache tr of
        Inl (e, tr') \<Rightarrow> (Some e, [], tr')
      | Inr (cells, cache', tr') \<Rightarrow>
          (case write_loop str_of utc_iso srv existing_rows projected (Suc idx) feats
                  cache' tr' of
             (err, rows, tr'') \<Rightarrow> (err, cells # rows, tr'')))"

definition HEADER :: "string list" where
  "HEADER = [''STATION_NO'', ''STATUT'', ''DATE_MAJ_ISO'', ''STATIONNEMENT'', ''OBJECTID'',
             ''X_32187'', ''Y_32187'', ''LON_WGS84'', ''LAT_WGS84'', ''RUE_REVERSE'']"

text \<open>
  \<^verbatim>\<open>main()\<close> of \<^verbatim>\<open>main.py\<close>, given the earlier output file; \<open>None\<close> when the paging
  loop never ends.
\<close>

definition sync_main ::
  "(json \<Rightarrow> string) \<Rightarrow> (json \<Rightarrow> pyerr + string) \<Rightarrow> net
     \<Rightarrow> row list option \<Rightarrow> json list outcome option" where
  "sync_main str_of utc_iso srv file =
     (let existing_rows = load_existing file
      in (case fetch_loop srv [] 0 [] of
         None \<Rightarrow> None
       | Some (Inl e, tr) \<Rightarrow> Some \<lparr>raised = Some e, written = None, events = tr\<rparr>
       | Some (Inr all_features, tr) \<Rightarrow>
           (case map_err point_of all_features of
              Inl e \<Rightarrow> Some \<lparr>raised = Some e, written = None, events = tr\<rparr>
            | Inr points \<Rightarrow>
                (case project_all srv points tr of
                   (Inl e, tr') \<Rightarrow> Some \<lparr>raised = Some e, written = None, events = tr'\<rparr>
                 | (Inr projected, tr') \<Rightarrow>
                     (case write_loop str_of utc_iso srv existing_rows projected 0
                             all_features Map.empty tr' of
                        (err, rows, tr'') \<Rightarrow>
                          Some \<lparr>raised = err, written = Some (HEADER, rows),
                                events = tr''\<rparr>)))))"


section \<open>Reading a run\<close>

text \<open>
  What an attempt makes of the answer to its request: the exception of the request, the
  exception of reading the label, or the label.
\<close>

definition attempt_result :: "pyerr + json \<Rightarrow> pyerr + json" where
  "attempt_result r = (case r of Inl e \<Rightarrow> Inl e | Inr data \<Rightarrow> response_label data)"

text \<open>
  The label selection in the words of the specification: \<^verbatim>\<open>LongLabel\<close> if present and
  non-empty, else \<^verbatim>\<open>Address\<close>, else \<^verbatim>\<open>Match_addr\<close>, else the empty string.
\<close>

definition present :: "(string \<rightharpoonup> json) \<Rightarrow> string \<Rightarrow> bool" where
  "present addr k = (case addr k of None \<Rightarrow> False | Some v \<Rightarrow> truthy v)"

definition preferred_label :: "(string \<rightharpoonup> json) \<Rightarrow> json" where
  "preferred_label addr =
     (if present addr ''LongLabel'' then the (addr ''LongLabel'')
      else if present addr ''Address'' then the (addr ''Address'')
      else if present addr ''Match_addr'' then the (addr ''Match_addr'')
      else JStr '''')"


text \<open>
  The features of a decoded page as the paging loop takes them: none when
  \<^verbatim>\<open>not features\<close> holds, the elements otherwise.
\<close>

definition page_of :: "json \<Rightarrow> pyerr + json list" where
  "page_of data =
     (case py_get data ''features'' (JArr []) of
        Inl e \<Rightarrow> Inl e
      | Inr features \<Rightarrow> if truthy features then py_iter features else Inr [])"

definition page :: "json \<Rightarrow> json list" where
  "page data = (case page_of data of Inl e \<Rightarrow> [] | Inr fs \<Rightarrow> fs)"

definition full_page :: "json \<Rightarrow> bool" where
  "full_page data = (case page_of data of Inl e \<Rightarrow> False | Inr fs \<Rightarrow> PAGE_SIZE \<le> length fs)"

definition short_page :: "json \<Rightarrow> bool" where
  "short_page data = (case page_of data of Inl e \<Rightarrow> False | Inr fs \<Rightarrow> length fs < PAGE_SIZE)"

text \<open>
  The requests of a paging run that starts at \<open>offset\<close> and receives the bodies \<open>ds\<close>, each
  offset the one before plus the number of features received; and the service giving these
  bodies to these requests.
\<close>

fun page_events :: "nat \<Rightarrow> json list \<Rightarrow> event list" where
  "page_events offset [] = []"
| "page_events offset (d # ds) =
     Call (FetchPage offset PAGE_SIZE) (Inr d) # page_events (offset + length (page d)) ds"

fun answers :: "net \<Rightarrow> trace \<Rightarrow> nat \<Rightarrow> json list \<Rightarrow> bool" where
  "answers srv tr offset [] = True"
| "answers srv tr offset (d # ds) =
     (srv tr (FetchPage offset PAGE_SIZE) = Inr d \<and>
      answers srv (tr @ [Call (FetchPage offset PAGE_SIZE) (Inr d)])
        (offset + length (page d)) ds)"




text \<open>
  The value of a coordinate rounded to six decimals, as \<^verbatim>\<open>round(x, 6)\<close> gives it: the
  two zeros are the same number.
\<close>

fun round6 :: "json \<Rightarrow> rat option" where
  "round6 (JFloat (Finite r)) = Some (of_int (round_half_even (r * 1000000)) / 1000000)"
| "round6 (JFloat NegZero) = Some 0"
| "round6 _ = None"

text \<open>
  Reading a trace: the points submitted to the projection service, in order, and the
  reverse-geocode requests.
\<close>

fun projected_points :: "trace \<Rightarrow> json list" where
  "projected_points [] = []"
| "projected_points (Call (Project points) r # tr) = points @ projected_points tr"
| "projected_points (ev # tr) = projected_points tr"

fun reverse_calls :: "trace \<Rightarrow> request list" where
  "reverse_calls [] = []"
| "reverse_calls (Call (Reverse lon lat) r # tr) = Reverse lon lat # reverse_calls tr"
| "reverse_calls (ev # tr) = reverse_calls tr"

text \<open>
  The row of the earlier output that line 148 finds for a feature, \<open>None\<close> when it finds
  none or an empty one.
\<close>

definition existing_for :: "(json \<Rightarrow> string) \<Rightarrow> (json \<rightharpoonup> row) \<Rightarrow> json \<Rightarrow> row option" where
  "existing_for str_of existing_rows feat =
     (case py_get feat ''attributes'' (JObj []) of
        Inr (JObj attrs) \<Rightarrow>
          (case existing_rows (JStr (str_of (row_get attrs ''OBJECTID'' (JStr '''')))) of
             None \<Rightarrow> None
           | Some r \<Rightarrow> if r = [] then None else Some r)
      | _ \<Rightarrow> None)"


section \<open>Example runs\<close>

definition always_down :: net where
  "always_down tr req = Inl URLError"

text \<open>A service that fails the first request made to it and answers from then on.\<close>

definition example_address :: json where
  "example_address = JObj [(''Address'', JStr ''12 Rue A''), (''Match_addr'', JStr ''Rue A'')]"

definition flaky_srv :: net where
  "flaky_srv tr req =
     (if tr = [] then Inl URLError else Inr (JObj [(''address'', example_address)]))"

text \<open>
  Python's \<^verbatim>\<open>float\<close> on the coordinate strings of the examples, \<^verbatim>\<open>str\<close> on \<^verbatim>\<open>None\<close>,
  booleans, integers and strings, and the time stamp of the epoch, which is all the
  examples apply them to.
\<close>

definition example_float :: "string \<Rightarrow> pyfloat option" where
  "example_float s =
     (if s = ''-73.5'' then Some (Finite (- 147 / 2))
      else if s = ''45.5'' then Some (Finite (91 / 2)) else None)"

definition example_str :: "json \<Rightarrow> string" where
  "example_str v =
     (case v of
        JStr s \<Rightarrow> s
      | JInt i \<Rightarrow> if i < 0 then ''-'' @ digits (nat (- i)) else digits (nat i)
      | JBool b \<Rightarrow> if b then ''True'' else ''False''
      | _ \<Rightarrow> ''None'')"

definition example_iso :: "json \<Rightarrow> pyerr + string" where
  "example_iso ms = (if ms = JInt 0 then Inr ''1970-01-01T00:00:00'' else Inl TypeError)"

definition example_feature :: json where
  "example_feature =
     JObj [(''attributes'',
            JObj [(''STATION_NO'', JStr ''P-1''), (''STATUT'', JInt 1), (''DATE_MAJ'', JInt 0),
                  (''STATIONNEMENT'', JStr ''A''), (''OBJECTID'', JInt 42)]),
           (''geometry'', JObj [(''x'', JInt 300000), (''y'', JInt 5040000)])]"

definition example_point :: json where
  "example_point = JObj [(''x'', JInt 300000), (''y'', JInt 5040000)]"

definition example_wgs84 :: json where
  "example_wgs84 = JObj [(''x'', JFloat (Finite (- 147 / 2))), (''y'', JFloat (Finite (91 / 2)))]"

text \<open>
  A service with one feature, which projects every point to the same place and knows an
  address everywhere.
\<close>

definition example_srv :: net where
  "example_srv tr req =
     (case req of
        FetchPage offset limit \<Rightarrow>
          Inr (JObj [(''features'', JArr (if offset = 0 then [example_feature] else []))])
      | Project points \<Rightarrow>
          Inr (JObj [(''geometries'', JArr (map (\<lambda>p. example_wgs84) points))])
      | Reverse lon lat \<Rightarrow> Inr (JObj [(''address'', example_address)]))"

text \<open>A projection service that answers with an error body.\<close>

definition error_srv :: net where
  "error_srv tr req = Inr (JObj [(''error'', JObj [(''code'', JInt 400)])])"

definition example_existing :: row where
  "example_existing =
     [(''STATION_NO'', JStr ''P-1''), (''STATUT'', JStr ''1''),
      (''DATE_MAJ_ISO'', JStr ''1970-01-01T00:00:00''), (''STATIONNEMENT'', JStr ''A''),
      (''OBJECTID'', JStr ''42''), (''X_32187'', JStr ''300000''),
      (''Y_32187'', JStr ''5040000''), (''LON_WGS84'', JStr ''-73.5''),
      (''LAT_WGS84'', JStr ''45.5''), (''RUE_REVERSE'', JStr ''Rue Test'')]"

definition example_cells :: "json list" where
  "example_cells =
     [JStr ''P-1'', JInt 1, JStr ''1970-01-01T00:00:00'', JStr ''A'', JStr ''42'',
      JInt 300000, JInt 5040000, JStr ''-73.5'', JStr ''45.5'', JStr ''Rue Test'']"

text \<open>A second feature, with no date, and a service with both features.\<close>

definition second_feature :: json where
  "second_feature =
     JObj [(''attributes'',
            JObj [(''STATION_NO'', JStr ''P-2''), (''STATUT'', JInt 0), (''DATE_MAJ'', JNull),
                  (''STATIONNEMENT'', JStr ''B''), (''OBJECTID'', JInt 43)]),
           (''geometry'', JObj [(''x'', JInt 300100), (''y'', JInt 5040100)])]"

definition second_point :: json where
  "second_point = JObj [(''x'', JInt 300100), (''y'', JInt 5040100)]"

definition second_cells :: "json list" where
  "second_cells =
     [JStr ''P-2'', JInt 0, JStr '''', JStr ''B'', JStr ''43'', JInt 300100, JInt 5040100,
      JFloat (Finite (- 147 / 2)), JFloat (Finite (91 / 2)), JStr ''12 Rue A'']"

definition two_srv :: net where
  "two_srv tr req =
     (case req of
        FetchPage offset limit \<Rightarrow>
          Inr (JObj [(''features'',
                      JArr (if offset = 0 then [example_feature, second_feature] else []))])
      | Project points \<Rightarrow> example_srv tr req
      | Reverse lon lat \<Rightarrow> example_srv tr req)"

text \<open>The three rows of the end-to-end scenario of the specification.\<close>

definition example_rows :: "row list" where
  "example_rows =
     [[(''OBJECTID'', JStr ''1''), (''LON_WGS84'', JStr ''-73.5''),
       (''LAT_WGS84'', JStr ''45.5''), (''RUE_REVERSE'', JStr ''Rue A'')],
      [(''OBJECTID'', JStr ''2''), (''LON_WGS84'', JStr ''-73.5''),
       (''LAT_WGS84'', JStr ''45.5''), (''RUE_REVERSE'', JStr ''MISSING_RUE'')],
      [(''OBJECTID'', JStr ''3''), (''LON_WGS84'', JStr ''''),
       (''LAT_WGS84'', JStr ''''), (''RUE_REVERSE'', JStr '''')]]"



section \<open>Reverse geocoding: the label, the retries, the cache\<close>

lemma response_label_address:
  assumes "py_get data ''address'' JNull = Inr (JObj addr)"
  shows "response_label data = Inr (preferred_label (map_of addr))"
proof (cases "addr = []")
  case True
  with assms show ?thesis
    by (simp add: response_label_def preferred_label_def present_def py_or_def)
next
  case False
  with assms show ?thesis
    by (auto simp: response_label_def preferred_label_def present_def py_or_def
        split: option.splits)
qed

lemma attempt_eq:
  "attempt srv lon lat tr =
     (attempt_result (srv tr (Reverse lon lat)),
      tr @ [Call (Reverse lon lat) (srv tr (Reverse lon lat))])"
  by (simp add: attempt_def urlopen_def attempt_result_def split: sum.splits)

lemma attempts_123: "[1 ..< MAX_RETRIES + 1] = [1, 2, 3]"
  by (simp add: MAX_RETRIES_def upt_rec)

lemma retry_unfold:
  "reverse_geocode_retry srv lon lat tr = retry_loop srv lon lat [1, 2, 3] tr"
  by (simp only: reverse_geocode_retry_def attempts_123)

lemma cache_key_not_null:
  "cache_key lon lat = Inr key \<Longrightarrow> lon \<noteq> JNull \<and> lat \<noteq> JNull"
  by (auto simp: cache_key_def split: sum.splits)


lemma reverse_geocode_miss:
  assumes "cache_key lon lat = Inr key" and "cache key = None"
  shows "reverse_geocode srv lon lat cache tr =
     Inr (case attempt_result (srv tr (Reverse lon lat)) of Inl e \<Rightarrow> JStr '''' | Inr l \<Rightarrow> l,
          cache(key \<mapsto>
            (case attempt_result (srv tr (Reverse lon lat)) of Inl e \<Rightarrow> JStr '''' | Inr l \<Rightarrow> l)),
          tr @ [Call (Reverse lon lat) (srv tr (Reverse lon lat))])"
  using assms cache_key_not_null [OF assms(1)]
  by (simp add: reverse_geocode_def attempt_eq split: sum.splits)

lemma reverse_geocode_hit:
  assumes "cache_key lon lat = Inr key" and "cache key = Some label"
  shows "reverse_geocode srv lon lat cache tr = Inr (label, cache, tr)"
  using assms cache_key_not_null [OF assms(1)] by (simp add: reverse_geocode_def)

lemma reverse_geocode_mono:
  assumes "reverse_geocode srv lon lat cache tr = Inr (label, cache', tr')"
  shows "cache \<subseteq>\<^sub>m cache'"
  using assms
  by (auto simp: reverse_geocode_def attempt_eq map_le_def
      split: if_splits sum.splits option.splits)

lemma reverse_geocode_stores:
  assumes "reverse_geocode srv lon lat cache tr = Inr (label, cache', tr')"
    and "cache_key lon lat = Inr key"
  shows "cache' key = Some label"
  using assms cache_key_not_null [OF assms(2)]
  by (auto simp: reverse_geocode_def attempt_eq split: if_splits sum.splits option.splits)

subsection \<open>The keys of the examples\<close>

lemma micros_examples:
  "micros (147 / 2) = 73500000" "micros (91 / 2) = 45500000"
  "micros (1 / 16777216) = 0" "micros (3 / 16777216) = 0"
  by (simp_all add: micros_def round_half_even_def)

lemma show6_examples:
  "show6 73500000 = ''73.500000''" "show6 45500000 = ''45.500000''" "show6 0 = ''0.000000''"
  by (simp_all add: show6_def digits.simps)

lemma fmt6_examples:
  "fmt6 (Finite (- 147 / 2)) = ''-73.500000''"
  "fmt6 (Finite (91 / 2)) = ''45.500000''"
  "fmt6 (Finite (- 1 / 16777216)) = ''-0.000000''"
  "fmt6 (Finite (1 / 16777216)) = ''0.000000''"
  "fmt6 (Finite (3 / 16777216)) = ''0.000000''"
  by (simp_all add: micros_examples show6_examples)

lemma cache_key_examples:
  "cache_key (JFloat (Finite (- 147 / 2))) (JFloat (Finite (91 / 2))) =
     Inr ''-73.500000,45.500000''"
  "cache_key (JFloat (Finite (- 1 / 16777216))) (JFloat (Finite (91 / 2))) =
     Inr ''-0.000000,45.500000''"
  "cache_key (JFloat (Finite (1 / 16777216))) (JFloat (Finite (91 / 2))) =
     Inr ''0.000000,45.500000''"
  "cache_key (JFloat (Finite (3 / 16777216))) (JFloat (Finite (91 / 2))) =
     Inr ''0.000000,45.500000''"
  by (simp_all add: cache_key_def micros_examples show6_examples)

text \<open>
  Two finite floats of the same sign whose absolute values round to the same number of
  millionths print alike.
\<close>

lemma fmt6_same_rounding:
  "(a < 0 \<longleftrightarrow> b < 0) \<Longrightarrow> micros \<bar>a\<bar> = micros \<bar>b\<bar> \<Longrightarrow> fmt6 (Finite a) = fmt6 (Finite b)"
  by (cases "a < 0") (auto simp: abs_if)

text \<open>
  Claim C5. For a response whose \<^verbatim>\<open>address\<close> is an object, whatever keys it has, the
  label read from it is \<^verbatim>\<open>LongLabel\<close> if present and non-empty, else \<^verbatim>\<open>Address\<close>,
  else \<^verbatim>\<open>Match_addr\<close>, else the empty string; and this is the label that
  \<^verbatim>\<open>reverse_geocode\<close> returns for that response in the sync script (on a cache miss,
  where it is also stored) and in the repair script.
\<close>

theorem label_preference:
  assumes "srv tr (Reverse lon lat) = Inr data"
    and "py_get data ''address'' JNull = Inr (JObj addr)"
    and "cache_key lon lat = Inr key"
    and "cache key = None"
  shows "response_label data = Inr (preferred_label (map_of addr)) \<and>
         reverse_geocode srv lon lat cache tr =
           Inr (preferred_label (map_of addr), cache(key \<mapsto> preferred_label (map_of addr)),
                tr @ [Call (Reverse lon lat) (Inr data)]) \<and>
         reverse_geocode_retry srv lon lat tr =
           (preferred_label (map_of addr), tr @ [Call (Reverse lon lat) (Inr data)])"
proof -
  have l: "response_label data = Inr (preferred_label (map_of addr))"
    using assms(2) by (rule response_label_address)
  have s: "reverse_geocode srv lon lat cache tr =
      Inr (preferred_label (map_of addr), cache(key \<mapsto> preferred_label (map_of addr)),
           tr @ [Call (Reverse lon lat) (Inr data)])"
    using assms(1) l
    by (simp add: reverse_geocode_miss [where cache = cache and key = key, OF assms(3,4)]
        attempt_result_def)
  have r: "reverse_geocode_retry srv lon lat tr =
      (preferred_label (map_of addr), tr @ [Call (Reverse lon lat) (Inr data)])"
    using assms(1) l by (simp add: retry_unfold attempt_eq attempt_result_def)
  from l s r show ?thesis by simp
qed

theorem label_preference_witness:
  "response_label (JObj [(''address'', example_address)]) = Inr (JStr ''12 Rue A'') \<and>
   reverse_geocode example_srv (JFloat (Finite (- 147 / 2))) (JFloat (Finite (91 / 2)))
       Map.empty [] =
     Inr (JStr ''12 Rue A'', [''-73.500000,45.500000'' \<mapsto> JStr ''12 Rue A''],
          [Call (Reverse (JFloat (Finite (- 147 / 2))) (JFloat (Finite (91 / 2))))
             (Inr (JObj [(''address'', example_address)]))]) \<and>
   reverse_geocode_retry example_srv (JFloat (Finite (- 147 / 2))) (JFloat (Finite (91 / 2))) [] =
     (JStr ''12 Rue A'',
      [Call (Reverse (JFloat (Finite (- 147 / 2))) (JFloat (Finite (91 / 2))))
         (Inr (JObj [(''address'', example_address)]))])"
proof -
  have 1: "example_srv [] (Reverse (JFloat (Finite (- 147 / 2))) (JFloat (Finite (91 / 2)))) =
      Inr (JObj [(''address'', example_address)])"
    by (simp add: example_srv_def)
  have 2: "py_get (JObj [(''address'', example_address)]) ''address'' JNull =
      Inr (JObj [(''Address'', JStr ''12 Rue A''), (''Match_addr'', JStr ''Rue A'')])"
    by (simp add: example_address_def)
  have 4: "(Map.empty :: string \<rightharpoonup> json) ''-73.500000,45.500000'' = None"
    by simp
  have p: "preferred_label (map_of [(''Address'', JStr ''12 Rue A''),
      (''Match_addr'', JStr ''Rue A'')]) = JStr ''12 Rue A''"
    by (simp add: preferred_label_def present_def)
  show ?thesis
    using label_preference [where srv = example_srv and tr = "[]" and cache = Map.empty,
        OF 1 2 cache_key_examples(1) 4]
    by (simp only: p append_Nil)
qed

text \<open>
  Claim C7. The repair script's \<^verbatim>\<open>reverse_geocode\<close> always returns, and what it does is
  this, \<open>r1\<close>, \<open>r2\<close> and \<open>r3\<close> being what the service gives to the first, second and third
  request at the moment each is made: it makes the first request and returns its label if
  there is one; if that attempt failed it sleeps \<^verbatim>\<open>0.5 * 1\<close> seconds and makes the second;
  if that failed it sleeps \<^verbatim>\<open>0.5 * 2\<close> seconds and makes the third; and if that failed too
  it returns the empty string, with no fourth request and no sleep after the third.
\<close>

theorem retry_policy:
  "reverse_geocode_retry srv lon lat tr =
     (let req = Reverse lon lat;
          r1 = srv tr req;
          r2 = srv (tr @ [Call req r1, Sleep (1 / 2)]) req;
          r3 = srv (tr @ [Call req r1, Sleep (1 / 2), Call req r2, Sleep 1]) req
      in case attempt_result r1 of
           Inr label \<Rightarrow> (label, tr @ [Call req r1])
         | Inl e1 \<Rightarrow>
             (case attempt_result r2 of
                Inr label \<Rightarrow> (label, tr @ [Call req r1, Sleep (1 / 2), Call req r2])
              | Inl e2 \<Rightarrow>
                  (case attempt_result r3 of
                     Inr label \<Rightarrow>
                       (label,
                        tr @ [Call req r1, Sleep (1 / 2), Call req r2, Sleep 1, Call req r3])
                   | Inl e3 \<Rightarrow>
                       (JStr '''',
                        tr @ [Call req r1, Sleep (1 / 2), Call req r2, Sleep 1, Call req r3]))))"
  by (simp add: retry_unfold attempt_eq MAX_RETRIES_def Let_def split: sum.splits)

lemma retry_all_fail:
  "reverse_geocode_retry always_down lon lat tr =
     (JStr '''',
      tr @ [Call (Reverse lon lat) (Inl URLError), Sleep (1 / 2),
            Call (Reverse lon lat) (Inl URLError), Sleep 1,
            Call (Reverse lon lat) (Inl URLError)])"
  by (simp add: retry_unfold attempt_eq MAX_RETRIES_def always_down_def attempt_result_def)

theorem retry_policy_witness:
  "reverse_geocode_retry always_down (JFloat (Finite (- 147 / 2))) (JFloat (Finite (91 / 2))) [] =
     (JStr '''',
      [Call (Reverse (JFloat (Finite (- 147 / 2))) (JFloat (Finite (91 / 2)))) (Inl URLError),
       Sleep (1 / 2),
       Call (Reverse (JFloat (Finite (- 147 / 2))) (JFloat (Finite (91 / 2)))) (Inl URLError),
       Sleep 1,
       Call (Reverse (JFloat (Finite (- 147 / 2))) (JFloat (Finite (91 / 2)))) (Inl URLError)]) \<and>
   reverse_geocode_retry flaky_srv (JFloat (Finite (- 147 / 2))) (JFloat (Finite (91 / 2))) [] =
     (JStr ''12 Rue A'',
      [Call (Reverse (JFloat (Finite (- 147 / 2))) (JFloat (Finite (91 / 2)))) (Inl URLError),
       Sleep (1 / 2),
       Call (Reverse (JFloat (Finite (- 147 / 2))) (JFloat (Finite (91 / 2))))
         (Inr (JObj [(''address'', example_address)]))])"
proof -
  have a: "attempt_result (Inl URLError) = Inl URLError"
    by (simp add: attempt_result_def)
  have b: "attempt_result (Inr (JObj [(''address'', example_address)])) = Inr (JStr ''12 Rue A'')"
    by (simp add: attempt_result_def response_label_def example_address_def py_or_def)
  show ?thesis
    using retry_policy [of always_down "JFloat (Finite (- 147 / 2))" "JFloat (Finite (91 / 2))" "[]"]
      retry_policy [of flaky_srv "JFloat (Finite (- 147 / 2))" "JFloat (Finite (91 / 2))" "[]"]
    by (simp add: Let_def always_down_def flaky_srv_def a b)
qed





text \<open>
  Claim C8, as stated, fails: the cache is keyed by the printed coordinates, and two
  coordinates that are equal after rounding to six decimals print differently when they
  lie on either side of zero. The longitudes \<^verbatim>\<open>-2**-24\<close> and \<^verbatim>\<open>2**-24\<close> both round to zero
  and print as \<^verbatim>\<open>-0.000000\<close> and \<^verbatim>\<open>0.000000\<close>: the call for the second, on the cache
  and the trace the call for the first has left, makes a request of its own and returns
  another label.
\<close>

theorem cache_sign_counterexample:
  "round6 (JFloat (Finite (- 1 / 16777216))) = round6 (JFloat (Finite (1 / 16777216))) \<and>
   reverse_geocode flaky_srv (JFloat (Finite (- 1 / 16777216))) (JFloat (Finite (91 / 2)))
       Map.empty [] =
     Inr (JStr '''', [''-0.000000,45.500000'' \<mapsto> JStr ''''],
          [Call (Reverse (JFloat (Finite (- 1 / 16777216))) (JFloat (Finite (91 / 2))))
             (Inl URLError)]) \<and>
   reverse_geocode flaky_srv (JFloat (Finite (1 / 16777216))) (JFloat (Finite (91 / 2)))
       [''-0.000000,45.500000'' \<mapsto> JStr '''']
       [Call (Reverse (JFloat (Finite (- 1 / 16777216))) (JFloat (Finite (91 / 2))))
          (Inl URLError)] =
     Inr (JStr ''12 Rue A'',
          [''-0.000000,45.500000'' \<mapsto> JStr '''', ''0.000000,45.500000'' \<mapsto> JStr ''12 Rue A''],
          [Call (Reverse (JFloat (Finite (- 1 / 16777216))) (JFloat (Finite (91 / 2))))
             (Inl URLError),
           Call (Reverse (JFloat (Finite (1 / 16777216))) (JFloat (Finite (91 / 2))))
             (Inr (JObj [(''address'', example_address)]))])"
proof -
  have r: "round6 (JFloat (Finite (- 1 / 16777216))) = round6 (JFloat (Finite (1 / 16777216)))"
  proof -
    have "\<lfloor>- (15625 / 262144) :: rat\<rfloor> = - 1" and "\<lfloor>15625 / 262144 :: rat\<rfloor> = 0"
      by (rule floor_unique; simp)+
    then have "round_half_even (- (15625 / 262144)) = 0" and "round_half_even (15625 / 262144) = 0"
      by (simp_all add: round_half_even_def)
    then show ?thesis by simp
  qed
  have b: "attempt_result (Inr (JObj [(''address'', example_address)])) = Inr (JStr ''12 Rue A'')"
    by (simp add: attempt_result_def response_label_def example_address_def py_or_def)
  have 1: "reverse_geocode flaky_srv (JFloat (Finite (- 1 / 16777216))) (JFloat (Finite (91 / 2)))
       Map.empty [] =
     Inr (JStr '''', [''-0.000000,45.500000'' \<mapsto> JStr ''''],
          [Call (Reverse (JFloat (Finite (- 1 / 16777216))) (JFloat (Finite (91 / 2))))
             (Inl URLError)])"
    using reverse_geocode_miss [where srv = flaky_srv and cache = Map.empty and tr = "[]",
        OF cache_key_examples(2)]
    by (simp add: flaky_srv_def attempt_result_def)
  have 2: "reverse_geocode flaky_srv (JFloat (Finite (1 / 16777216))) (JFloat (Finite (91 / 2)))
       [''-0.000000,45.500000'' \<mapsto> JStr '''']
       [Call (Reverse (JFloat (Finite (- 1 / 16777216))) (JFloat (Finite (91 / 2))))
          (Inl URLError)] =
     Inr (JStr ''12 Rue A'',
          [''-0.000000,45.500000'' \<mapsto> JStr '''', ''0.000000,45.500000'' \<mapsto> JStr ''12 Rue A''],
          [Call (Reverse (JFloat (Finite (- 1 / 16777216))) (JFloat (Finite (91 / 2))))
             (Inl URLError),
           Call (Reverse (JFloat (Finite (1 / 16777216))) (JFloat (Finite (91 / 2))))
             (Inr (JObj [(''address'', example_address)]))])"
    using reverse_geocode_miss [where srv = flaky_srv
        and cache = "[''-0.000000,45.500000'' \<mapsto> JStr '''']"
        and tr = "[Call (Reverse (JFloat (Finite (- 1 / 16777216))) (JFloat (Finite (91 / 2))))
          (Inl URLError)]", OF cache_key_examples(3)]
    by (simp add: flaky_srv_def b)
  from r 1 2 show ?thesis by (intro conjI)
qed

text \<open>
  Claim C8, amended. When a call of the sync script's \<^verbatim>\<open>reverse_geocode\<close> has returned a
  label for a coordinate pair, a call for a pair that prints alike to six decimals, that is
  with the same key, on any later cache of the run (one that extends the cache the first
  call left), returns the same label, also an empty one, and leaves the cache and the trace
  as they were: it makes no request. A call only ever adds to the cache, so every later
  cache of the run is such an extension. By \<open>fmt6_same_rounding\<close> two finite coordinates
  print alike when they have the same sign and round to the same number of millionths.
\<close>

theorem cache_serves_second_call:
  assumes "reverse_geocode srv lon lat cache tr = Inr (label, cache_after, tr_after)"
    and "cache_key lon lat = Inr key"
    and "cache_key lon' lat' = Inr key"
    and "cache_after \<subseteq>\<^sub>m later_cache"
  shows "reverse_geocode srv lon' lat' later_cache later_tr =
           Inr (label, later_cache, later_tr) \<and>
         cache \<subseteq>\<^sub>m cache_after"
proof -
  have "cache_after key = Some label"
    using assms(1,2) by (rule reverse_geocode_stores [where cache' = cache_after])
  with assms(4) have "later_cache key = Some label"
    by (auto simp: map_le_def dom_def)
  with assms(3) have "reverse_geocode srv lon' lat' later_cache later_tr =
      Inr (label, later_cache, later_tr)"
    by (rule reverse_geocode_hit [where cache = later_cache])
  moreover have "cache \<subseteq>\<^sub>m cache_after"
    using assms(1) by (rule reverse_geocode_mono)
  ultimately show ?thesis by simp
qed

theorem cache_serves_second_call_witness:
  "reverse_geocode flaky_srv (JFloat (Finite (1 / 16777216))) (JFloat (Finite (91 / 2)))
       Map.empty [] =
     Inr (JStr '''', [''0.000000,45.500000'' \<mapsto> JStr ''''],
          [Call (Reverse (JFloat (Finite (1 / 16777216))) (JFloat (Finite (91 / 2))))
             (Inl URLError)]) \<and>
   reverse_geocode flaky_srv (JFloat (Finite (3 / 16777216))) (JFloat (Finite (91 / 2)))
       [''0.000000,45.500000'' \<mapsto> JStr '''']
       [Call (Reverse (JFloat (Finite (1 / 16777216))) (JFloat (Finite (91 / 2))))
          (Inl URLError)] =
     Inr (JStr '''', [''0.000000,45.500000'' \<mapsto> JStr ''''],
          [Call (Reverse (JFloat (Finite (1 / 16777216))) (JFloat (Finite (91 / 2))))
             (Inl URLError)])"
proof -
  have 1: "reverse_geocode flaky_srv (JFloat (Finite (1 / 16777216))) (JFloat (Finite (91 / 2)))
       Map.empty [] =
     Inr (JStr '''', [''0.000000,45.500000'' \<mapsto> JStr ''''],
          [Call (Reverse (JFloat (Finite (1 / 16777216))) (JFloat (Finite (91 / 2))))
             (Inl URLError)])"
    using reverse_geocode_miss [where srv = flaky_srv and cache = Map.empty and tr = "[]",
        OF cache_key_examples(3)]
    by (simp add: flaky_srv_def attempt_result_def)
  have 4: "[''0.000000,45.500000'' \<mapsto> JStr ''''] \<subseteq>\<^sub>m [''0.000000,45.500000'' \<mapsto> JStr '''']"
    by simp
  show ?thesis
    using 1 cache_serves_second_call
      [where later_cache = "[''0.000000,45.500000'' \<mapsto> JStr '''']"
        and later_tr = "[Call (Reverse (JFloat (Finite (1 / 16777216)))
          (JFloat (Finite (91 / 2)))) (Inl URLError)]",
        OF 1 cache_key_examples(3) cache_key_examples(4) 4]
    by simp
qed

section \<open>The repair of the rows\<close>

lemma row_get_row_set:
  "row_get (row_set r k v) k d = v"
  by (induction r) (auto simp: row_get_def)

lemma row_get_row_set_other:
  "k' \<noteq> k \<Longrightarrow> row_get (row_set r k v) k' d = row_get r k' d"
  by (induction r) (auto simp: row_get_def)


lemma keys_row_set_new:
  "k \<notin> fst ` set r \<Longrightarrow> map fst (row_set r k v) = map fst r @ [k]"
  by (induction r) auto

lemma float_or_none_Some:
  assumes "float_of s = Some x" and "float_of '''' = None" and "float_of ''None'' = None"
  shows "float_or_none float_of (JStr s) = Inr (Some x)"
proof -
  from assms have "s \<noteq> ''''" and "s \<noteq> ''None''" by auto
  with assms(1) show ?thesis by (simp add: float_or_none_def)
qed

lemma parse_coords_Some:
  assumes "float_of lon = Some x" and "float_of lat = Some y"
    and "float_of '''' = None" and "float_of ''None'' = None"
  shows "parse_coords float_of (JStr lon) (JStr lat) = Inr (Some x, Some y)"
  using float_or_none_Some [OF assms(1,3,4)] float_or_none_Some [OF assms(2,3,4)]
  by (simp add: parse_coords_def)

lemma isspace_codes:
  "isspace c \<Longrightarrow> c \<notin> set ''abcdefghijklmnopqrstuvwxyz'' \<and> c \<notin> set MISSING_RUE"
  by (auto simp: isspace_def MISSING_RUE_def)

lemma upper_char_space:
  "isspace c \<Longrightarrow> upper_char c = [c]"
proof -
  assume sp: "isspace c"
  with isspace_codes have "c \<notin> set ''abcdefghijklmnopqrstuvwxyz''"
    by blast
  then have "map_of (zip ''abcdefghijklmnopqrstuvwxyz'' ''ABCDEFGHIJKLMNOPQRSTUVWXYZ'') c = None"
    by simp
  moreover from sp have "(of_char c :: nat) \<noteq> 223" and "\<not> 224 \<le> (of_char c :: nat)"
    by (auto simp: isspace_def)
  ultimately show ?thesis
    by (simp add: upper_char_def)
qed

lemma isspace_not_letter:
  "isspace c \<Longrightarrow> upper_char c = [c] \<and> c \<notin> set MISSING_RUE"
  using isspace_codes [of c] upper_char_space [of c] by blast

lemma sentinel_no_space:
  assumes "upper s = MISSING_RUE" and "c \<in> set s"
  shows "\<not> isspace c"
proof
  assume sp: "isspace c"
  from assms(2) have "set (upper_char c) \<subseteq> set (concat (map upper_char s))"
    by auto
  with assms(1) have "set (upper_char c) \<subseteq> set MISSING_RUE"
    by (simp only: upper_def)
  with isspace_not_letter [OF sp] show False by simp
qed

lemma strip_no_space:
  assumes "\<forall>c \<in> set s. \<not> isspace c"
  shows "strip s = s"
proof (cases s rule: rev_cases)
  case Nil
  then show ?thesis by (simp add: strip_def)
next
  case (snoc ys y)
  have "dropWhile isspace s = s"
    using assms by (cases s) auto
  moreover have "dropWhile isspace (rev s) = rev s"
    using assms snoc by simp
  ultimately show ?thesis by (simp add: strip_def)
qed

lemma sentinel_stripped:
  assumes "rue = '''' \<or> upper rue = MISSING_RUE"
  shows "strip rue = '''' \<or> upper (strip rue) = MISSING_RUE"
proof (cases "rue = ''''")
  case True
  then show ?thesis by (simp add: strip_def)
next
  case False
  with assms have u: "upper rue = MISSING_RUE" by simp
  have "\<forall>c \<in> set rue. \<not> isspace c"
    using sentinel_no_space [OF u] by blast
  then have "strip rue = rue"
    by (rule strip_no_space)
  with u show ?thesis by simp
qed

text \<open>
  Claim C2, as stated, fails in its last part: when every attempt fails, the label returned
  is empty and the guard \<^verbatim>\<open>if label:\<close> leaves the row as it was, so a row marked
  \<^verbatim>\<open>MISSING_RUE\<close> keeps the sentinel instead of getting the empty string.
\<close>

theorem repair_row_sentinel_kept_counterexample:
  "repair_row example_float always_down (example_rows ! 1) [] =
     Inr ([(''OBJECTID'', JStr ''2''), (''LON_WGS84'', JStr ''-73.5''),
           (''LAT_WGS84'', JStr ''45.5''), (''RUE_REVERSE'', JStr ''MISSING_RUE'')],
          [Call (Reverse (JFloat (Finite (- 147 / 2))) (JFloat (Finite (91 / 2)))) (Inl URLError), Sleep (1 / 2),
           Call (Reverse (JFloat (Finite (- 147 / 2))) (JFloat (Finite (91 / 2)))) (Inl URLError), Sleep 1,
           Call (Reverse (JFloat (Finite (- 147 / 2))) (JFloat (Finite (91 / 2)))) (Inl URLError),
           Sleep SLEEP_SECONDS])"
  by (simp add: example_rows_def repair_row_def row_get_def strip_def isspace_def upper_def
      upper_char_def MISSING_RUE_def parse_coords_def float_or_none_def example_float_def
      retry_all_fail)

text \<open>
  Claim C2, amended. For a row whose \<^verbatim>\<open>RUE_REVERSE\<close> is, once stripped of blanks, empty or
  the sentinel in any case (by \<open>sentinel_stripped\<close> this includes every label that is empty
  or equals the sentinel case-insensitively), and whose \<^verbatim>\<open>LON_WGS84\<close> and \<^verbatim>\<open>LAT_WGS84\<close>
  parse as floats, the retrying reverse geocoding is run on the parsed coordinates, followed
  by the pause of \<^verbatim>\<open>SLEEP_SECONDS\<close>. If it finds a label, the row's \<^verbatim>\<open>RUE_REVERSE\<close> is
  overwritten with it; if it finds none, as when all retries fail, the row is left as it was.
  \<open>float_of\<close> is Python's \<^verbatim>\<open>float\<close>, which raises on the empty string and on \<^verbatim>\<open>None\<close>
  spelled out.
\<close>

theorem repair_row_lookup:
  assumes "row_get row ''RUE_REVERSE'' (JStr '''') = JStr rue"
    and "strip rue = '''' \<or> upper (strip rue) = MISSING_RUE"
    and "row_get row ''LON_WGS84'' JNull = JStr lon" and "float_of lon = Some x"
    and "row_get row ''LAT_WGS84'' JNull = JStr lat" and "float_of lat = Some y"
    and "float_of '''' = None" and "float_of ''None'' = None"
  shows "\<exists>label tr'.
           reverse_geocode_retry srv (JFloat x) (JFloat y) tr = (label, tr') \<and>
           (truthy label \<longrightarrow>
              repair_row float_of srv row tr =
                Inr (row_set row ''RUE_REVERSE'' label, tr' @ [Sleep SLEEP_SECONDS]) \<and>
              row_get (row_set row ''RUE_REVERSE'' label) ''RUE_REVERSE'' (JStr '''') = label) \<and>
           (\<not> truthy label \<longrightarrow>
              repair_row float_of srv row tr = Inr (row, tr' @ [Sleep SLEEP_SECONDS]))"
proof -
  obtain label tr' where r: "reverse_geocode_retry srv (JFloat x) (JFloat y) tr = (label, tr')"
    by (cases "reverse_geocode_retry srv (JFloat x) (JFloat y) tr")
  have p: "parse_coords float_of (JStr lon) (JStr lat) = Inr (Some x, Some y)"
    using assms(4,6,7,8) by (rule parse_coords_Some)
  have "repair_row float_of srv row tr =
      Inr (if truthy label then row_set row ''RUE_REVERSE'' label else row,
           tr' @ [Sleep SLEEP_SECONDS])"
    using assms(1,2,3,5) p r by (auto simp: repair_row_def)
  with r show ?thesis
    by (simp add: row_get_row_set)
qed

theorem repair_row_lookup_witness:
  "repair_row example_float example_srv (example_rows ! 1) [] =
     Inr ([(''OBJECTID'', JStr ''2''), (''LON_WGS84'', JStr ''-73.5''),
           (''LAT_WGS84'', JStr ''45.5''), (''RUE_REVERSE'', JStr ''12 Rue A'')],
          [Call (Reverse (JFloat (Finite (- 147 / 2))) (JFloat (Finite (91 / 2))))
             (Inr (JObj [(''address'', example_address)])),
           Sleep SLEEP_SECONDS])"
proof -
  have 1: "row_get (example_rows ! 1) ''RUE_REVERSE'' (JStr '''') = JStr ''MISSING_RUE''"
    by (simp add: example_rows_def row_get_def)
  have 2: "strip ''MISSING_RUE'' = '''' \<or> upper (strip ''MISSING_RUE'') = MISSING_RUE"
    by (simp add: strip_def isspace_def upper_def upper_char_def MISSING_RUE_def)
  have 3: "row_get (example_rows ! 1) ''LON_WGS84'' JNull = JStr ''-73.5''"
    by (simp add: example_rows_def row_get_def)
  have 4: "example_float ''-73.5'' = Some (Finite (- 147 / 2))"
    by (simp add: example_float_def)
  have 5: "row_get (example_rows ! 1) ''LAT_WGS84'' JNull = JStr ''45.5''"
    by (simp add: example_rows_def row_get_def)
  have 6: "example_float ''45.5'' = Some (Finite (91 / 2))"
    by (simp add: example_float_def)
  have 7: "example_float '''' = None" and 8: "example_float ''None'' = None"
    by (simp_all add: example_float_def)
  have r: "reverse_geocode_retry example_srv (JFloat (Finite (- 147 / 2))) (JFloat (Finite (91 / 2))) [] =
      (JStr ''12 Rue A'',
       [Call (Reverse (JFloat (Finite (- 147 / 2))) (JFloat (Finite (91 / 2))))
          (Inr (JObj [(''address'', example_address)]))])"
    by (simp add: retry_unfold attempt_eq attempt_result_def example_srv_def
        example_address_def response_label_def py_or_def)
  have s: "row_set (example_rows ! 1) ''RUE_REVERSE'' (JStr ''12 Rue A'') =
      [(''OBJECTID'', JStr ''2''), (''LON_WGS84'', JStr ''-73.5''),
       (''LAT_WGS84'', JStr ''45.5''), (''RUE_REVERSE'', JStr ''12 Rue A'')]"
    by (simp add: example_rows_def)
  show ?thesis
    using repair_row_lookup [where srv = example_srv and tr = "[]", OF 1 2 3 4 5 6 7 8] r s
    by auto
qed

text \<open>
  Claim C10. On a file with no data row, whatever its header, \<^verbatim>\<open>main\<close> of the repair
  script ends with the \<^verbatim>\<open>IndexError\<close> of \<^verbatim>\<open>rows[0]\<close>: the output file has not been
  opened, and no request has been made.
\<close>

theorem fill_main_empty:
  "fill_main float_of srv [] = \<lparr>raised = Some IndexError, written = None, events = []\<rparr>"
  by (simp add: fill_main_def)

theorem fill_main_empty_witness:
  "fill_main example_float example_srv [] =
     \<lparr>raised = Some IndexError, written = None, events = []\<rparr>"
  by (rule fill_main_empty)

















section \<open>The projection in batches\<close>

lemma project_points_empty:
  "project_points srv [] tr = (Inr (JArr []), tr)"
  by (simp add: project_points_def)

lemma chunks_take:
  "concat (map (\<lambda>k. take b (drop (k * b) xs)) [0 ..< m]) = take (m * b) xs"
proof (induction m)
  case 0
  then show ?case by simp
next
  case (Suc m)
  have "take (m * b + b) xs = take (m * b) xs @ take b (drop (m * b) xs)"
    by (simp add: take_add)
  with Suc show ?case by (simp add: add.commute)
qed

lemma chunks_all:
  "concat (map (\<lambda>i. take batch_size (drop i xs)) (range_step (length xs) batch_size)) = xs"
proof -
  have "length xs \<le> (length xs + batch_size - 1) div batch_size * batch_size"
    by (simp add: batch_size_def)
  then show ?thesis
    by (simp add: range_step_def comp_def chunks_take)
qed

lemma project_points_pointwise:
  assumes "\<forall>t pts. pts \<noteq> [] \<and> length pts \<le> batch_size \<longrightarrow>
      (\<exists>data. srv t (Project pts) = Inr data \<and>
         py_get data ''geometries'' (JArr []) = Inr (JArr (map proj pts)))"
    and "length pts \<le> batch_size"
  shows "\<exists>tr'. project_points srv pts tr = (Inr (JArr (map proj pts)), tr')"
proof (cases "pts = []")
  case True
  then show ?thesis by (simp add: project_points_def)
next
  case False
  with assms obtain data where "srv tr (Project pts) = Inr data"
    and "py_get data ''geometries'' (JArr []) = Inr (JArr (map proj pts))"
    by blast
  with False show ?thesis
    by (simp add: project_points_def urlopen_def)
qed

lemma project_loop_pointwise:
  assumes "\<forall>t pts. pts \<noteq> [] \<and> length pts \<le> batch_size \<longrightarrow>
      (\<exists>data. srv t (Project pts) = Inr data \<and>
         py_get data ''geometries'' (JArr []) = Inr (JArr (map proj pts)))"
  shows "\<exists>tr'. project_loop srv points is projected tr =
      (Inr (projected @ map proj (concat (map (\<lambda>i. take batch_size (drop i points)) is))), tr')"
proof (induction "is" arbitrary: projected tr)
  case Nil
  then show ?case by simp
next
  case (Cons i "is")
  have "length (take batch_size (drop i points)) \<le> batch_size"
    by simp
  from project_points_pointwise [OF assms this] obtain t1 where
    1: "project_points srv (take batch_size (drop i points)) tr =
          (Inr (JArr (map proj (take batch_size (drop i points)))), t1)"
    by blast
  from Cons [of "projected @ map proj (take batch_size (drop i points))" t1] obtain t2 where
    2: "project_loop srv points is (projected @ map proj (take batch_size (drop i points))) t1 =
          (Inr ((projected @ map proj (take batch_size (drop i points))) @
             map proj (concat (map (\<lambda>i. take batch_size (drop i points)) is))), t2)"
    by blast
  from 1 2 show ?case by simp
qed

text \<open>
  Claim C4, as stated, fails in its second part: \<^verbatim>\<open>project_points\<close> returns whatever list
  the response has under \<^verbatim>\<open>geometries\<close>, and the empty list when the key is absent, as in
  an error body. The output for one point is then empty, and \<^verbatim>\<open>main\<close> provides for this
  case with \<^verbatim>\<open>projected[idx] if idx < len(projected) else {}\<close>.
\<close>

theorem project_all_short_counterexample:
  "project_all error_srv [example_point] [] =
     (Inr [], [Call (Project [example_point])
                 (Inr (JObj [(''error'', JObj [(''code'', JInt 400)])]))])"
  by (simp add: project_all_def range_step_def batch_size_def project_points_def urlopen_def
      error_srv_def)

text \<open>
  Claim C4, amended. \<^verbatim>\<open>project_points\<close> on the empty list returns the empty list and
  makes no request. When the projection service answers every request of at most 200 points
  with one geometry per point, in the order submitted (the \<open>proj\<close> of each point), the
  projection in batches of 200 returns normally a list as long as the input whose \<open>i\<close>-th
  element is the projection of the \<open>i\<close>-th point.
\<close>

theorem projection_in_order:
  assumes "\<forall>t pts. pts \<noteq> [] \<and> length pts \<le> batch_size \<longrightarrow>
      (\<exists>data. srv t (Project pts) = Inr data \<and>
         py_get data ''geometries'' (JArr []) = Inr (JArr (map proj pts)))"
  shows "project_points srv [] tr = (Inr (JArr []), tr) \<and>
         (\<exists>projected tr'.
            project_all srv points tr = (Inr projected, tr') \<and>
            length projected = length points \<and>
            (\<forall>i < length points. projected ! i = proj (points ! i)))"
proof -
  from project_loop_pointwise [OF assms, of points "range_step (length points) batch_size" "[]" tr]
  obtain tr' where "project_all srv points tr = (Inr (map proj points), tr')"
    by (auto simp: project_all_def chunks_all)
  then have "project_all srv points tr = (Inr (map proj points), tr') \<and>
      length (map proj points) = length points \<and>
      (\<forall>i < length points. map proj points ! i = proj (points ! i))"
    by simp
  then have "\<exists>projected tr'.
      project_all srv points tr = (Inr projected, tr') \<and>
      length projected = length points \<and>
      (\<forall>i < length points. projected ! i = proj (points ! i))"
    by blast
  with project_points_empty show ?thesis by simp
qed

lemma example_srv_pointwise:
  "\<forall>t pts. pts \<noteq> [] \<and> length pts \<le> batch_size \<longrightarrow>
      (\<exists>data. example_srv t (Project pts) = Inr data \<and>
         py_get data ''geometries'' (JArr []) = Inr (JArr (map (\<lambda>p. example_wgs84) pts)))"
  by (simp add: example_srv_def)

theorem projection_in_order_witness:
  "(project_points example_srv [] [] = (Inr (JArr []), []) \<and>
    (\<exists>projected tr'.
       project_all example_srv (replicate 201 example_point) [] = (Inr projected, tr') \<and>
       length projected = length (replicate 201 example_point) \<and>
       (\<forall>i < length (replicate 201 example_point).
          projected ! i = (\<lambda>p. example_wgs84) (replicate 201 example_point ! i)))) \<and>
   project_all example_srv [example_point, example_point] [] =
     (Inr [example_wgs84, example_wgs84],
      [Call (Project [example_point, example_point])
         (Inr (JObj [(''geometries'', JArr [example_wgs84, example_wgs84])]))])"
proof (rule conjI)
  show "project_points example_srv [] [] = (Inr (JArr []), []) \<and>
    (\<exists>projected tr'.
       project_all example_srv (replicate 201 example_point) [] = (Inr projected, tr') \<and>
       length projected = length (replicate 201 example_point) \<and>
       (\<forall>i < length (replicate 201 example_point).
          projected ! i = (\<lambda>p. example_wgs84) (replicate 201 example_point ! i)))"
    by (rule projection_in_order [OF example_srv_pointwise])
  show "project_all example_srv [example_point, example_point] [] =
     (Inr [example_wgs84, example_wgs84],
      [Call (Project [example_point, example_point])
         (Inr (JObj [(''geometries'', JArr [example_wgs84, example_wgs84])]))])"
    by (simp add: project_all_def range_step_def batch_size_def project_points_def urlopen_def
        example_srv_def)
qed

section \<open>The paging loop\<close>

lemma fetch_loop_short:
  assumes "srv tr (FetchPage offset PAGE_SIZE) = Inr d" and "short_page d"
  shows "fetch_loop srv all_features offset tr =
     Some (Inr (all_features @ page d), tr @ [Call (FetchPage offset PAGE_SIZE) (Inr d)])"
  using assms
  by (subst fetch_loop.simps)
    (auto simp: fetch_page_def urlopen_def short_page_def page_def page_of_def
      split: sum.splits if_splits)

lemma fetch_loop_full:
  assumes "srv tr (FetchPage offset PAGE_SIZE) = Inr d" and "full_page d"
  shows "fetch_loop srv all_features offset tr =
     fetch_loop srv (all_features @ page d) (offset + length (page d))
       (tr @ [Call (FetchPage offset PAGE_SIZE) (Inr d)])"
  using assms
  by (subst fetch_loop.simps)
    (auto simp: fetch_page_def urlopen_def full_page_def page_def page_of_def PAGE_SIZE_def
      split: sum.splits if_splits)

lemma fetch_loop_error:
  assumes "srv tr (FetchPage offset PAGE_SIZE) = Inl e"
  shows "fetch_loop srv all_features offset tr =
     Some (Inl e, tr @ [Call (FetchPage offset PAGE_SIZE) (Inl e)])"
  using assms
  by (subst fetch_loop.simps) (simp add: fetch_page_def urlopen_def)

lemma fetch_loop_answers:
  assumes "answers srv tr offset (ds @ [d])" and "\<forall>x \<in> set ds. full_page x" and "short_page d"
  shows "fetch_loop srv all_features offset tr =
     Some (Inr (all_features @ concat (map page (ds @ [d]))),
           tr @ page_events offset (ds @ [d]))"
  using assms
proof (induction ds arbitrary: all_features offset tr)
  case Nil
  then show ?case by (simp add: fetch_loop_short)
next
  case (Cons x ds)
  from Cons.prems have
    1: "srv tr (FetchPage offset PAGE_SIZE) = Inr x" and
    2: "answers srv (tr @ [Call (FetchPage offset PAGE_SIZE) (Inr x)])
          (offset + length (page x)) (ds @ [d])" and
    3: "full_page x" and 4: "\<forall>y \<in> set ds. full_page y"
    by simp_all
  from Cons.IH [OF 2 4 Cons.prems(3)] fetch_loop_full [where srv = srv and tr = tr, OF 1 3]
  show ?case by simp
qed

lemma fetch_loop_sound:
  assumes "fetch_loop srv all_features offset tr = Some y"
  shows "\<forall>features. fst y = Inr features \<longrightarrow>
           (\<exists>ds d. answers srv tr offset (ds @ [d]) \<and> (\<forall>x \<in> set ds. full_page x) \<and>
              short_page d \<and> features = all_features @ concat (map page (ds @ [d])) \<and>
              snd y = tr @ page_events offset (ds @ [d]))"
proof (rule fetch_loop.raw_induct [OF _ assms])
  fix f :: "net \<Rightarrow> json list \<Rightarrow> nat \<Rightarrow> trace \<Rightarrow> ((pyerr + json list) \<times> trace) option"
  fix srv all_features offset tr y
  assume IH: "\<And>s a n t z. f s a n t = Some z \<Longrightarrow>
      \<forall>features. fst z = Inr features \<longrightarrow>
        (\<exists>ds d. answers s t n (ds @ [d]) \<and> (\<forall>x \<in> set ds. full_page x) \<and>
           short_page d \<and> features = a @ concat (map page (ds @ [d])) \<and>
           snd z = t @ page_events n (ds @ [d]))"
  assume body: "(case fetch_page srv offset PAGE_SIZE tr of
        (Inl e, tr') \<Rightarrow> Some (Inl e, tr')
      | (Inr data, tr') \<Rightarrow>
          (case py_get data ''features'' (JArr []) of
             Inl e \<Rightarrow> Some (Inl e, tr')
           | Inr features \<Rightarrow>
               if \<not> truthy features then Some (Inr all_features, tr')
               else (case py_iter features of
                  Inl e \<Rightarrow> Some (Inl e, tr')
                | Inr fs \<Rightarrow>
                    if length fs < PAGE_SIZE then Some (Inr (all_features @ fs), tr')
                    else f srv (all_features @ fs) (offset + length fs) tr'))) = Some y"
  show "\<forall>features. fst y = Inr features \<longrightarrow>
      (\<exists>ds d. answers srv tr offset (ds @ [d]) \<and> (\<forall>x \<in> set ds. full_page x) \<and>
         short_page d \<and> features = all_features @ concat (map page (ds @ [d])) \<and>
         snd y = tr @ page_events offset (ds @ [d]))"
  proof (intro allI impI)
    fix features
    assume y: "fst y = Inr features"
    let ?tr = "tr @ [Call (FetchPage offset PAGE_SIZE) (srv tr (FetchPage offset PAGE_SIZE))]"
    from body y obtain d where d: "srv tr (FetchPage offset PAGE_SIZE) = Inr d"
      by (cases "srv tr (FetchPage offset PAGE_SIZE)")
        (auto simp: fetch_page_def urlopen_def)
    from body y d obtain fs where fs: "page_of d = Inr fs"
      by (auto simp: fetch_page_def urlopen_def page_of_def split: sum.splits if_splits)
    show "\<exists>ds d. answers srv tr offset (ds @ [d]) \<and> (\<forall>x \<in> set ds. full_page x) \<and>
         short_page d \<and> features = all_features @ concat (map page (ds @ [d])) \<and>
         snd y = tr @ page_events offset (ds @ [d])"
    proof (cases "length fs < PAGE_SIZE")
      case True
      with body y d fs have "features = all_features @ fs"
        and "snd y = tr @ [Call (FetchPage offset PAGE_SIZE) (Inr d)]"
        by (auto simp: fetch_page_def urlopen_def page_of_def split: sum.splits if_splits)
      moreover from True fs have "short_page d" and "page d = fs"
        by (simp_all add: short_page_def page_def)
      ultimately show ?thesis
        using d by (intro exI [of _ "[]"] exI [of _ d]) simp
    next
      case False
      with fs have full: "full_page d" and pg: "page d = fs"
        by (simp_all add: full_page_def page_def)
      from False body d fs have
        r: "f srv (all_features @ fs) (offset + length fs)
              (tr @ [Call (FetchPage offset PAGE_SIZE) (Inr d)]) = Some y"
        by (auto simp: fetch_page_def urlopen_def page_of_def PAGE_SIZE_def
            split: sum.splits if_splits)
      from IH [OF r] y obtain ds e where
        a: "answers srv (tr @ [Call (FetchPage offset PAGE_SIZE) (Inr d)])
              (offset + length fs) (ds @ [e])" and
        b: "\<forall>x \<in> set ds. full_page x" and c: "short_page e" and
        g: "features = (all_features @ fs) @ concat (map page (ds @ [e]))" and
        h: "snd y = (tr @ [Call (FetchPage offset PAGE_SIZE) (Inr d)]) @
              page_events (offset + length fs) (ds @ [e])"
        by blast
      from d full pg a b c g h show ?thesis
        by (intro exI [of _ "d # ds"] exI [of _ e]) simp
    qed
  qed
qed

text \<open>
  Claim C3. When the feature service answers the successive requests of the paging loop
  with full pages \<open>ds\<close> (500 features or more each) and then with a page \<open>d\<close> that is empty
  or shorter than 500, the loop ends on \<open>d\<close>: it has requested each page at the offset of
  the one before plus the number of features that one held, with page size 500, it has made
  one request per page and none after \<open>d\<close>, and the list it has accumulated is the
  concatenation of the pages, of length the sum of their lengths. By \<open>fetch_loop_sound\<close>
  every run of the loop that ends without an exception has this form.
\<close>

theorem fetch_loop_pages:
  assumes "answers srv tr offset (ds @ [d])" and "\<forall>x \<in> set ds. full_page x" and "short_page d"
  shows "\<exists>features.
           fetch_loop srv [] offset tr = Some (Inr features, tr @ page_events offset (ds @ [d])) \<and>
           features = concat (map page (ds @ [d])) \<and>
           length features = sum_list (map (\<lambda>x. length (page x)) (ds @ [d])) \<and>
           length (page_events offset (ds @ [d])) = length ds + 1"
proof -
  have "fetch_loop srv [] offset tr =
      Some (Inr ([] @ concat (map page (ds @ [d]))), tr @ page_events offset (ds @ [d]))"
    using assms by (rule fetch_loop_answers)
  moreover have "length (concat (map page (ds @ [d]))) =
      sum_list (map (\<lambda>x. length (page x)) (ds @ [d]))"
    by (simp add: length_concat comp_def)
  moreover have "length (page_events offset xs) = length xs" for xs
    by (induction xs arbitrary: offset) simp_all
  ultimately show ?thesis by simp
qed

lemma example_answers:
  "answers example_srv [] 0 ([] @ [JObj [(''features'', JArr [example_feature])]])"
  by (simp add: example_srv_def)

lemma example_short:
  "short_page (JObj [(''features'', JArr [example_feature])])"
  by (simp add: short_page_def page_of_def PAGE_SIZE_def)

theorem fetch_loop_pages_witness:
  "fetch_loop example_srv [] 0 [] =
     Some (Inr [example_feature],
           [Call (FetchPage 0 PAGE_SIZE) (Inr (JObj [(''features'', JArr [example_feature])]))])"
proof -
  have e: "\<forall>x \<in> set ([] :: json list). full_page x"
    by simp
  have p: "page (JObj [(''features'', JArr [example_feature])]) = [example_feature]"
    by (simp add: page_def page_of_def)
  from fetch_loop_pages [OF example_answers e example_short] p show ?thesis
    by simp
qed

section \<open>The merge with the earlier output\<close>

lemma load_existing_snoc:
  "load_existing (Some (rows @ [r])) =
     (load_existing (Some rows))(row_get r ''OBJECTID'' (JStr '''') \<mapsto> r)"
  by (simp add: load_existing_def)

lemma load_existing_member:
  "load_existing (Some rows) k = Some r \<Longrightarrow>
     r \<in> set rows \<and> row_get r ''OBJECTID'' (JStr '''') = k"
proof (induction rows rule: rev_induct)
  case Nil
  then show ?case by (simp add: load_existing_def)
next
  case (snoc x xs)
  then show ?case
    by (auto simp: load_existing_snoc split: if_splits)
qed

lemma load_existing_unique:
  assumes "distinct (map (\<lambda>r. row_get r ''OBJECTID'' (JStr '''')) rows)" and "r \<in> set rows"
  shows "load_existing (Some rows) (row_get r ''OBJECTID'' (JStr '''')) = Some r"
  using assms
proof (induction rows rule: rev_induct)
  case Nil
  then show ?case by simp
next
  case (snoc x xs)
  show ?case
  proof (cases "r = x")
    case True
    then show ?thesis by (simp add: load_existing_snoc)
  next
    case False
    with snoc.prems have r: "r \<in> set xs"
      by simp
    from snoc.prems have "row_get x ''OBJECTID'' (JStr '''') \<notin>
        (\<lambda>r. row_get r ''OBJECTID'' (JStr '''')) ` set xs"
      by simp
    then have "row_get r ''OBJECTID'' (JStr '''') \<noteq> row_get x ''OBJECTID'' (JStr '''')"
      using r by (metis imageI)
    with r snoc.prems snoc.IH have "load_existing (Some xs) (row_get r ''OBJECTID'' (JStr '''')) = Some r"
      and "row_get r ''OBJECTID'' (JStr '''') \<noteq> row_get x ''OBJECTID'' (JStr '''')"
      by simp_all
    then show ?thesis by (simp add: load_existing_snoc)
  qed
qed

lemma merge_existing_found:
  assumes "existing_rows (JStr objectid) = Some existing" and "existing \<noteq> []"
  shows "merge_existing srv existing_rows projected idx objectid cache tr =
     Inr (py_or (row_get existing ''LON_WGS84'' JNull) (JStr ''''),
          py_or (row_get existing ''LAT_WGS84'' JNull) (JStr ''''),
          py_or (row_get existing ''RUE_REVERSE'' JNull) (JStr ''''),
          cache, tr)"
  using assms by (simp add: merge_existing_def)

lemma none_to_empty_py_or:
  "none_to_empty (py_or v (JStr '''')) = py_or v (JStr '''')"
  by (cases v) (simp_all add: none_to_empty_def py_or_def)

lemma existing_forD:
  assumes "existing_for str_of existing_rows feat = Some r"
  shows "\<exists>attrs. py_get feat ''attributes'' (JObj []) = Inr (JObj attrs) \<and>
           existing_rows (JStr (str_of (row_get attrs ''OBJECTID'' (JStr '''')))) = Some r \<and>
           r \<noteq> []"
  using assms
  by (auto simp: existing_for_def split: sum.splits json.splits option.splits if_splits)

lemma feature_row_existing:
  assumes "existing_for str_of existing_rows feat = Some r"
  shows "feature_row str_of utc_iso srv existing_rows projected idx feat cache tr =
     (case py_get feat ''geometry'' (JObj []) of
        Inl e \<Rightarrow> Inl (e, tr)
      | Inr g \<Rightarrow>
          (case py_get feat ''attributes'' (JObj []) of
             Inl e \<Rightarrow> Inl (e, tr)
           | Inr a \<Rightarrow>
          (case as_dict a of
             Inl e \<Rightarrow> Inl (e, tr)
           | Inr attrs \<Rightarrow>
          (case ms_to_iso utc_iso (row_get attrs ''DATE_MAJ'' JNull) of
             Inl e \<Rightarrow> Inl (e, tr)
           | Inr date_maj_iso \<Rightarrow>
               (case as_dict (py_or g (JObj [])) of
                  Inl e \<Rightarrow> Inl (e, tr)
                | Inr geom \<Rightarrow>
                    Inr ([row_get attrs ''STATION_NO'' (JStr ''''),
                          row_get attrs ''STATUT'' (JStr ''''),
                          JStr date_maj_iso,
                          row_get attrs ''STATIONNEMENT'' (JStr ''''),
                          JStr (str_of (row_get attrs ''OBJECTID'' (JStr ''''))),
                          row_get geom ''x'' (JStr ''''),
                          row_get geom ''y'' (JStr ''''),
                          py_or (row_get r ''LON_WGS84'' JNull) (JStr ''''),
                          py_or (row_get r ''LAT_WGS84'' JNull) (JStr ''''),
                          py_or (row_get r ''RUE_REVERSE'' JNull) (JStr '''')], cache, tr))))))"
proof -
  from existing_forD [OF assms] obtain attrs where
    a: "py_get feat ''attributes'' (JObj []) = Inr (JObj attrs)" and
    e: "existing_rows (JStr (str_of (row_get attrs ''OBJECTID'' (JStr '''')))) = Some r" and
    ne: "r \<noteq> []"
    by blast
  note m = merge_existing_found [where existing_rows = existing_rows and srv = srv
      and projected = projected and idx = idx and cache = cache and tr = tr, OF e ne]
  show ?thesis
    by (simp add: feature_row_def a m none_to_empty_py_or split: sum.splits)
qed

lemma feature_row_existing_cells:
  assumes "existing_for str_of existing_rows feat = Some r"
    and "feature_row str_of utc_iso srv existing_rows projected idx feat cache tr =
      Inr (cells, cache', tr')"
  shows "drop 7 cells =
      [py_or (row_get r ''LON_WGS84'' JNull) (JStr ''''),
       py_or (row_get r ''LAT_WGS84'' JNull) (JStr ''''),
       py_or (row_get r ''RUE_REVERSE'' JNull) (JStr '''')] \<and> cache' = cache \<and> tr' = tr"
  using assms(2) unfolding feature_row_existing [OF assms(1)]
  by (auto split: sum.splits)

lemma feature_row_existing_error:
  assumes "existing_for str_of existing_rows feat = Some r"
    and "feature_row str_of utc_iso srv existing_rows projected idx feat cache tr = Inl (e, tr')"
  shows "tr' = tr"
  using assms(2) unfolding feature_row_existing [OF assms(1)]
  by (auto split: sum.splits)

lemma projected_points_append:
  "projected_points (a @ b) = projected_points a @ projected_points b"
  by (induction a rule: projected_points.induct) simp_all

lemma reverse_calls_append:
  "reverse_calls (a @ b) = reverse_calls a @ reverse_calls b"
  by (induction a rule: reverse_calls.induct) simp_all

lemma page_events_quiet:
  "projected_points (page_events n ds) = [] \<and> reverse_calls (page_events n ds) = []"
  by (induction ds arbitrary: n) simp_all

lemma fetch_loop_quiet:
  assumes "fetch_loop srv [] 0 [] = Some (Inr fs, tr)"
  shows "projected_points tr = [] \<and> reverse_calls tr = []"
  using fetch_loop_sound [OF assms] page_events_quiet by auto

lemma project_points_trace:
  assumes "project_points srv pts tr = (res, tr')"
  shows "projected_points tr' = projected_points tr @ pts \<and>
         reverse_calls tr' = reverse_calls tr"
  using assms
  by (auto simp: project_points_def urlopen_def projected_points_append reverse_calls_append
      split: if_splits sum.splits)

lemma project_loop_trace:
  assumes "project_loop srv points is projected tr = (Inr out, tr')"
  shows "projected_points tr' =
           projected_points tr @ concat (map (\<lambda>i. take batch_size (drop i points)) is) \<and>
         reverse_calls tr' = reverse_calls tr"
  using assms
proof (induction "is" arbitrary: projected tr)
  case Nil
  then show ?case by simp
next
  case (Cons i "is")
  from Cons.prems obtain geoms t gs where
    1: "project_points srv (take batch_size (drop i points)) tr = (Inr geoms, t)" and
    2: "py_iter geoms = Inr gs" and
    3: "project_loop srv points is (projected @ gs) t = (Inr out, tr')"
    by (auto split: prod.splits sum.splits)
  from project_points_trace [OF 1] Cons.IH [OF 3] show ?case by simp
qed

lemma project_all_trace:
  assumes "project_all srv points tr = (Inr out, tr')"
  shows "projected_points tr' = projected_points tr @ points \<and>
         reverse_calls tr' = reverse_calls tr"
  using project_loop_trace [OF assms [unfolded project_all_def]] by (simp add: chunks_all)

lemma reverse_geocode_trace:
  assumes "reverse_geocode srv lon lat cache tr = Inr (label, cache', tr')"
  shows "tr' = tr \<or> tr' = tr @ [Call (Reverse lon lat) (srv tr (Reverse lon lat))]"
  using assms
  by (auto simp: reverse_geocode_def attempt_eq split: if_splits sum.splits option.splits)

lemma merge_existing_trace:
  assumes "merge_existing srv existing_rows projected idx objectid cache tr =
      Inr (lon, lat, label, c, t)"
  shows "t = tr \<or> t = tr @ [Call (Reverse lon lat) (srv tr (Reverse lon lat))]"
proof (cases "(case existing_rows (JStr objectid) of None \<Rightarrow> [] | Some r \<Rightarrow> r) \<noteq> []")
  case True
  with assms show ?thesis by (simp add: merge_existing_def Let_def)
next
  case False
  with assms obtain wgs84 where
    "reverse_geocode srv (row_get wgs84 ''x'' JNull) (row_get wgs84 ''y'' JNull) cache tr =
       Inr (label, c, t)"
    and "lon = row_get wgs84 ''x'' JNull" and "lat = row_get wgs84 ''y'' JNull"
    by (auto simp: merge_existing_def Let_def split: sum.splits)
  with reverse_geocode_trace [where srv = srv and cache = cache and tr = tr and lon = lon
      and lat = lat and label = label and cache' = c and tr' = t]
  show ?thesis by simp
qed

lemma feature_row_merge:
  assumes "feature_row str_of utc_iso srv existing_rows projected idx feat cache tr = res"
    and "tr' = (case res of Inl (e, t) \<Rightarrow> t | Inr (cells, c, t) \<Rightarrow> t)"
  shows "tr' = tr \<or>
         (\<exists>objectid lon lat label c.
            merge_existing srv existing_rows projected idx objectid cache tr =
              Inr (lon, lat, label, c, tr'))"
  using assms
  by (auto simp: feature_row_def Let_def split: sum.splits)

lemma feature_row_trace:
  assumes "feature_row str_of utc_iso srv existing_rows projected idx feat cache tr = res"
    and "tr' = (case res of Inl (e, t) \<Rightarrow> t | Inr (cells, c, t) \<Rightarrow> t)"
  shows "tr' = tr \<or>
         (existing_for str_of existing_rows feat = None \<and>
          (\<exists>lon lat r. tr' = tr @ [Call (Reverse lon lat) r]))"
proof (cases "existing_for str_of existing_rows feat")
  case (Some r)
  show ?thesis
  proof (cases res)
    case (Inl p)
    then obtain e t where "res = Inl (e, t)" by (cases p) simp
    with assms feature_row_existing_error [OF Some] show ?thesis by auto
  next
    case (Inr p)
    then obtain cells c t where "res = Inr (cells, c, t)" by (cases p) auto
    with assms feature_row_existing_cells [OF Some] show ?thesis by auto
  qed
next
  case None
  from feature_row_merge [OF assms] merge_existing_trace [where srv = srv and tr = tr]
  have "tr' = tr \<or> (\<exists>lon lat r. tr' = tr @ [Call (Reverse lon lat) r])"
    by blast
  with None show ?thesis by simp
qed

lemma feature_row_counts:
  assumes "feature_row str_of utc_iso srv existing_rows projected idx feat cache tr = res"
    and "tr' = (case res of Inl (e, t) \<Rightarrow> t | Inr (cells, c, t) \<Rightarrow> t)"
  shows "projected_points tr' = projected_points tr \<and>
         length (reverse_calls tr') \<le> length (reverse_calls tr) +
           length (filter (\<lambda>f. existing_for str_of existing_rows f = None) [feat])"
  using feature_row_trace [OF assms]
  by (auto simp: projected_points_append reverse_calls_append)

lemma write_loop_trace:
  assumes "write_loop str_of utc_iso srv existing_rows projected idx feats cache tr =
      (err, rows, tr')"
  shows "projected_points tr' = projected_points tr \<and>
         length (reverse_calls tr') \<le> length (reverse_calls tr) +
           length (filter (\<lambda>f. existing_for str_of existing_rows f = None) feats) \<and>
         length rows \<le> length feats \<and> (err = None \<longrightarrow> length rows = length feats)"
  using assms
proof (induction feats arbitrary: idx cache tr err rows tr')
  case Nil
  then show ?case by simp
next
  case (Cons f fs)
  show ?case
  proof (cases "feature_row str_of utc_iso srv existing_rows projected idx f cache tr")
    case (Inl p)
    obtain e t where p: "p = (e, t)" by (cases p)
    from Cons.prems Inl p have "err = Some e" and "rows = []" and "tr' = t"
      by simp_all
    with feature_row_counts [OF Inl, of t] p show ?thesis
      by auto
  next
    case (Inr p)
    obtain cells c t where p: "p = (cells, c, t)" by (cases p)
    from Cons.prems Inr p obtain rs where
      w: "write_loop str_of utc_iso srv existing_rows projected (Suc idx) fs c t =
        (err, rs, tr')" and
      r: "rows = cells # rs"
      by (auto split: prod.splits)
    from feature_row_counts [OF Inr, of t] p Cons.IH [OF w] r show ?thesis
      by auto
  qed
qed

lemma write_loop_take:
  assumes "write_loop str_of utc_iso srv existing_rows projected idx feats cache tr =
      (err, rows, tr')"
    and "i < length rows"
    and "existing_for str_of existing_rows (feats ! i) = Some r"
  shows "drop 7 (rows ! i) =
           [py_or (row_get r ''LON_WGS84'' JNull) (JStr ''''),
            py_or (row_get r ''LAT_WGS84'' JNull) (JStr ''''),
            py_or (row_get r ''RUE_REVERSE'' JNull) (JStr '''')] \<and>
         write_loop str_of utc_iso srv existing_rows projected idx (take (Suc i) feats) cache tr =
           (case write_loop str_of utc_iso srv existing_rows projected idx (take i feats)
                   cache tr of
              (e, rws, t) \<Rightarrow> (e, rws @ [rows ! i], t))"
  using assms
proof (induction feats arbitrary: idx cache tr err rows tr' i)
  case Nil
  then show ?case by simp
next
  case (Cons f fs)
  show ?case
  proof (cases "feature_row str_of utc_iso srv existing_rows projected idx f cache tr")
    case (Inl p)
    obtain e t where "p = (e, t)" by (cases p)
    with Cons.prems(1) Inl have "rows = []" by simp
    with Cons.prems(2) show ?thesis by simp
  next
    case (Inr p)
    obtain cells c t where p: "p = (cells, c, t)" by (cases p)
    from Cons.prems(1) Inr p obtain rs where
      w: "write_loop str_of utc_iso srv existing_rows projected (Suc idx) fs c t =
        (err, rs, tr')" and
      r: "rows = cells # rs"
      by (auto split: prod.splits)
    show ?thesis
    proof (cases i)
      case 0
      with Cons.prems(3) have "existing_for str_of existing_rows f = Some r"
        by simp
      from feature_row_existing_cells [OF this Inr [unfolded p]] 0 r Inr p
      show ?thesis by simp
    next
      case (Suc j)
      with Cons.prems(2,3) r have "j < length rs"
        and "existing_for str_of existing_rows (fs ! j) = Some r"
        by simp_all
      from Cons.IH [OF w this] Suc r Inr p show ?thesis
        by (simp split: prod.splits)
    qed
  qed
qed

lemma example_existing_for:
  "existing_for example_str (load_existing (Some [example_existing])) example_feature =
     Some example_existing"
  "existing_for example_str (load_existing (Some [example_existing])) second_feature = None"
  by (simp_all add: existing_for_def load_existing_def example_existing_def row_get_def
      example_str_def example_feature_def second_feature_def digits.simps)

lemma example_feature_row:
  "feature_row example_str example_iso srv
     (load_existing (Some [example_existing])) projected idx example_feature cache tr =
     Inr (example_cells, cache, tr)"
  by (subst feature_row_existing [OF example_existing_for(1)])
    (simp add: row_get_def example_str_def example_feature_def example_iso_def py_or_def
      example_cells_def example_existing_def ms_to_iso_def digits.simps)

text \<open>
  Claim C1, as stated, fails for the projection: \<^verbatim>\<open>main\<close> projects the points of all the
  fetched features before it looks at the earlier output. In this run the only feature has
  a row with a label in the earlier output; that row's coordinates and label are written,
  no reverse-geocode request is made, and yet the feature's point has been sent to the
  projection service.
\<close>

theorem sync_projects_existing_counterexample:
  "sync_main example_str example_iso example_srv (Some [example_existing]) =
     Some \<lparr>raised = None,
           written = Some (HEADER, [example_cells]),
           events =
             [Call (FetchPage 0 PAGE_SIZE) (Inr (JObj [(''features'', JArr [example_feature])])),
              Call (Project [example_point])
                (Inr (JObj [(''geometries'', JArr [example_wgs84])]))]\<rparr>"
proof -
  have f: "fetch_loop example_srv [] 0 [] =
      Some (Inr [example_feature],
        [Call (FetchPage 0 PAGE_SIZE) (Inr (JObj [(''features'', JArr [example_feature])]))])"
    by (subst fetch_loop.simps)
      (simp add: fetch_page_def urlopen_def example_srv_def PAGE_SIZE_def)
  have p: "point_of example_feature = Inr example_point"
    by (simp add: point_of_def example_feature_def example_point_def)
  have q: "project_all example_srv [example_point] tr =
      (Inr [example_wgs84],
       tr @ [Call (Project [example_point]) (Inr (JObj [(''geometries'', JArr [example_wgs84])]))])"
    for tr
    by (simp add: project_all_def range_step_def batch_size_def project_points_def urlopen_def
        example_srv_def)
  show ?thesis
    by (simp add: sync_main_def f p q example_feature_row)
qed

text \<open>
  Claim C1, amended. Take a run of the sync script in which the paging loop returns the
  features \<open>all_features\<close>, their points are read, and the projection in batches returns
  without an exception. Then the run opens the output file and writes the header and a row
  for each feature in turn, up to the first iteration that raises, all of them when none
  does. The projection requests of the run between them submit the point of every fetched
  feature, in order, whether or not its \<^verbatim>\<open>OBJECTID\<close> is in the earlier output. The run makes
  at most as many reverse-geocode requests as there are features for which line 148 finds
  no row in the earlier output. And for every row written for a feature whose \<^verbatim>\<open>OBJECTID\<close>,
  as a string, has a row in the earlier output (the last of the file with that
  \<^verbatim>\<open>OBJECTID\<close>, whatever its label), the last three cells are that row's \<^verbatim>\<open>LON_WGS84\<close>,
  \<^verbatim>\<open>LAT_WGS84\<close> and \<^verbatim>\<open>RUE_REVERSE\<close> as they are, the empty string for a cell that is absent
  or empty; and the iteration of that feature adds the row and nothing else: the loop run
  through this feature ends with the trace of the loop run up to it, so it makes no request
  of any kind for the feature.
\<close>

theorem sync_reuses_existing:
  assumes "fetch_loop srv [] 0 [] = Some (Inr all_features, tr0)"
    and "map_err point_of all_features = Inr points"
    and "project_all srv points tr0 = (Inr projected, tr1)"
  shows "\<exists>err rows tr2.
           sync_main str_of utc_iso srv previous =
             Some \<lparr>raised = err, written = Some (HEADER, rows), events = tr2\<rparr> \<and>
           length rows \<le> length all_features \<and>
           (err = None \<longrightarrow> length rows = length all_features) \<and>
           projected_points tr2 = points \<and>
           length (reverse_calls tr2) \<le>
             length (filter (\<lambda>f. existing_for str_of (load_existing previous) f = None)
               all_features) \<and>
           (\<forall>i < length rows. \<forall>r.
              existing_for str_of (load_existing previous) (all_features ! i) = Some r \<longrightarrow>
              drop 7 (rows ! i) =
                [py_or (row_get r ''LON_WGS84'' JNull) (JStr ''''),
                 py_or (row_get r ''LAT_WGS84'' JNull) (JStr ''''),
                 py_or (row_get r ''RUE_REVERSE'' JNull) (JStr '''')] \<and>
              write_loop str_of utc_iso srv (load_existing previous) projected 0
                  (take (Suc i) all_features) Map.empty tr1 =
                (case write_loop str_of utc_iso srv (load_existing previous) projected 0
                        (take i all_features) Map.empty tr1 of
                   (e, rws, t) \<Rightarrow> (e, rws @ [rows ! i], t)))"
proof -
  obtain err rows tr2 where
    w: "write_loop str_of utc_iso srv (load_existing previous) projected 0 all_features
          Map.empty tr1 = (err, rows, tr2)"
    by (rule prod_cases3)
  have m: "sync_main str_of utc_iso srv previous =
      Some \<lparr>raised = err, written = Some (HEADER, rows), events = tr2\<rparr>"
    using assms w by (simp add: sync_main_def Let_def)
  from fetch_loop_quiet [OF assms(1)] project_all_trace [OF assms(3)]
  have t: "projected_points tr1 = points" "reverse_calls tr1 = []"
    by simp_all
  from write_loop_trace [OF w] t have
    1: "length rows \<le> length all_features" and
    2: "err = None \<longrightarrow> length rows = length all_features" and
    3: "projected_points tr2 = points" and
    4: "length (reverse_calls tr2) \<le>
          length (filter (\<lambda>f. existing_for str_of (load_existing previous) f = None)
            all_features)"
    by simp_all
  have 5: "\<forall>i < length rows. \<forall>r.
      existing_for str_of (load_existing previous) (all_features ! i) = Some r \<longrightarrow>
      drop 7 (rows ! i) =
        [py_or (row_get r ''LON_WGS84'' JNull) (JStr ''''),
         py_or (row_get r ''LAT_WGS84'' JNull) (JStr ''''),
         py_or (row_get r ''RUE_REVERSE'' JNull) (JStr '''')] \<and>
      write_loop str_of utc_iso srv (load_existing previous) projected 0
          (take (Suc i) all_features) Map.empty tr1 =
        (case write_loop str_of utc_iso srv (load_existing previous) projected 0
                (take i all_features) Map.empty tr1 of
           (e, rws, t) \<Rightarrow> (e, rws @ [rows ! i], t))"
    using write_loop_take [OF w] by blast
  from m 1 2 3 4 5 show ?thesis
    by (intro exI conjI)
qed

lemma two_srv_fetch:
  "fetch_loop two_srv [] 0 [] =
     Some (Inr [example_feature, second_feature],
       [Call (FetchPage 0 PAGE_SIZE)
          (Inr (JObj [(''features'', JArr [example_feature, second_feature])]))])"
  by (subst fetch_loop.simps)
    (simp add: fetch_page_def urlopen_def two_srv_def PAGE_SIZE_def)

lemma example_points:
  "point_of example_feature = Inr example_point"
  "point_of second_feature = Inr second_point"
  by (simp_all add: point_of_def example_feature_def second_feature_def example_point_def
      second_point_def)

lemma two_srv_points:
  "map_err point_of [example_feature, second_feature] = Inr [example_point, second_point]"
  by (simp add: example_points)

lemma two_srv_project:
  "project_all two_srv [example_point, second_point] tr =
     (Inr [example_wgs84, example_wgs84],
      tr @ [Call (Project [example_point, second_point])
              (Inr (JObj [(''geometries'', JArr [example_wgs84, example_wgs84])]))])"
  by (simp add: project_all_def range_step_def batch_size_def project_points_def urlopen_def
      two_srv_def example_srv_def)

lemma second_feature_row:
  "feature_row example_str example_iso two_srv (load_existing (Some [example_existing]))
     [example_wgs84, example_wgs84] (Suc 0) second_feature Map.empty tr =
     Inr (second_cells, [''-73.500000,45.500000'' \<mapsto> JStr ''12 Rue A''],
          tr @ [Call (Reverse (JFloat (Finite (- 147 / 2))) (JFloat (Finite (91 / 2))))
                  (Inr (JObj [(''address'', example_address)]))])"
proof -
  have r: "reverse_geocode two_srv (JFloat (Finite (- 147 / 2))) (JFloat (Finite (91 / 2)))
      Map.empty tr =
      Inr (JStr ''12 Rue A'', [''-73.500000,45.500000'' \<mapsto> JStr ''12 Rue A''],
           tr @ [Call (Reverse (JFloat (Finite (- 147 / 2))) (JFloat (Finite (91 / 2))))
                   (Inr (JObj [(''address'', example_address)]))])"
    using reverse_geocode_miss [where srv = two_srv and cache = Map.empty and tr = tr,
        OF cache_key_examples(1)]
    by (simp add: two_srv_def example_srv_def attempt_result_def response_label_def
        example_address_def py_or_def)
  have m: "merge_existing two_srv (load_existing (Some [example_existing]))
      [example_wgs84, example_wgs84] (Suc 0) ''43'' Map.empty tr =
      Inr (JFloat (Finite (- 147 / 2)), JFloat (Finite (91 / 2)), JStr ''12 Rue A'',
           [''-73.500000,45.500000'' \<mapsto> JStr ''12 Rue A''],
           tr @ [Call (Reverse (JFloat (Finite (- 147 / 2))) (JFloat (Finite (91 / 2))))
                   (Inr (JObj [(''address'', example_address)]))])"
    using r
    by (simp add: merge_existing_def load_existing_def example_existing_def row_get_def
        example_wgs84_def Let_def)
  have s: "example_str (JInt 43) = ''43''"
    by (simp add: example_str_def digits.simps)
  show ?thesis
    using m
    by (simp add: feature_row_def second_feature_def row_get_def s ms_to_iso_def py_or_def
        none_to_empty_def second_cells_def)
qed

lemma two_srv_run:
  "sync_main example_str example_iso two_srv (Some [example_existing]) =
     Some \<lparr>raised = None,
           written = Some (HEADER, [example_cells, second_cells]),
           events =
             [Call (FetchPage 0 PAGE_SIZE)
                (Inr (JObj [(''features'', JArr [example_feature, second_feature])])),
              Call (Project [example_point, second_point])
                (Inr (JObj [(''geometries'', JArr [example_wgs84, example_wgs84])])),
              Call (Reverse (JFloat (Finite (- 147 / 2))) (JFloat (Finite (91 / 2))))
                (Inr (JObj [(''address'', example_address)]))]\<rparr>"
  by (simp add: sync_main_def two_srv_fetch example_points two_srv_project example_feature_row
      second_feature_row)

theorem sync_reuses_existing_witness:
  "fetch_loop two_srv [] 0 [] =
     Some (Inr [example_feature, second_feature],
       [Call (FetchPage 0 PAGE_SIZE)
          (Inr (JObj [(''features'', JArr [example_feature, second_feature])]))]) \<and>
   map_err point_of [example_feature, second_feature] = Inr [example_point, second_point] \<and>
   project_all two_srv [example_point, second_point]
       [Call (FetchPage 0 PAGE_SIZE)
          (Inr (JObj [(''features'', JArr [example_feature, second_feature])]))] =
     (Inr [example_wgs84, example_wgs84],
      [Call (FetchPage 0 PAGE_SIZE)
         (Inr (JObj [(''features'', JArr [example_feature, second_feature])])),
       Call (Project [example_point, second_point])
         (Inr (JObj [(''geometries'', JArr [example_wgs84, example_wgs84])]))]) \<and>
   existing_for example_str (load_existing (Some [example_existing])) example_feature =
     Some example_existing \<and>
   existing_for example_str (load_existing (Some [example_existing])) second_feature = None \<and>
   (\<exists>tr2. sync_main example_str example_iso two_srv (Some [example_existing]) =
        Some \<lparr>raised = None, written = Some (HEADER, [example_cells, second_cells]),
              events = tr2\<rparr> \<and>
      projected_points tr2 = [example_point, second_point] \<and>
      length (reverse_calls tr2) \<le> 1 \<and>
      drop 7 example_cells = [JStr ''-73.5'', JStr ''45.5'', JStr ''Rue Test''])"
proof -
  let ?tr0 = "[Call (FetchPage 0 PAGE_SIZE)
      (Inr (JObj [(''features'', JArr [example_feature, second_feature])]))]"
  have q: "project_all two_srv [example_point, second_point] ?tr0 =
     (Inr [example_wgs84, example_wgs84],
      [Call (FetchPage 0 PAGE_SIZE)
         (Inr (JObj [(''features'', JArr [example_feature, second_feature])])),
       Call (Project [example_point, second_point])
         (Inr (JObj [(''geometries'', JArr [example_wgs84, example_wgs84])]))])"
    by (simp add: two_srv_project)
  from sync_reuses_existing [where str_of = example_str and utc_iso = example_iso
      and previous = "Some [example_existing]", OF two_srv_fetch two_srv_points q]
  obtain err rows tr2 where
    m: "sync_main example_str example_iso two_srv (Some [example_existing]) =
          Some \<lparr>raised = err, written = Some (HEADER, rows), events = tr2\<rparr>" and
    p: "projected_points tr2 = [example_point, second_point]" and
    c: "length (reverse_calls tr2) \<le>
          length (filter (\<lambda>f. existing_for example_str (load_existing (Some [example_existing])) f
            = None) [example_feature, second_feature])" and
    e: "\<forall>i < length rows. \<forall>r.
          existing_for example_str (load_existing (Some [example_existing]))
            ([example_feature, second_feature] ! i) = Some r \<longrightarrow>
          drop 7 (rows ! i) =
            [py_or (row_get r ''LON_WGS84'' JNull) (JStr ''''),
             py_or (row_get r ''LAT_WGS84'' JNull) (JStr ''''),
             py_or (row_get r ''RUE_REVERSE'' JNull) (JStr '''')] \<and>
          write_loop example_str example_iso two_srv (load_existing (Some [example_existing]))
              [example_wgs84, example_wgs84] 0
              (take (Suc i) [example_feature, second_feature]) Map.empty
              [Call (FetchPage 0 PAGE_SIZE)
                 (Inr (JObj [(''features'', JArr [example_feature, second_feature])])),
               Call (Project [example_point, second_point])
                 (Inr (JObj [(''geometries'', JArr [example_wgs84, example_wgs84])]))] =
            (case write_loop example_str example_iso two_srv
                    (load_existing (Some [example_existing])) [example_wgs84, example_wgs84] 0
                    (take i [example_feature, second_feature]) Map.empty
                    [Call (FetchPage 0 PAGE_SIZE)
                       (Inr (JObj [(''features'', JArr [example_feature, second_feature])])),
                     Call (Project [example_point, second_point])
                       (Inr (JObj [(''geometries'', JArr [example_wgs84, example_wgs84])]))] of
               (e, rws, t) \<Rightarrow> (e, rws @ [rows ! i], t))"
    by blast
  from m two_srv_run have rows: "rows = [example_cells, second_cells]" and err: "err = None"
    by simp_all
  from c have c': "length (reverse_calls tr2) \<le> 1"
    by (simp add: example_existing_for)
  from e [rule_format, of 0 example_existing] rows
  have "drop 7 example_cells =
      [py_or (row_get example_existing ''LON_WGS84'' JNull) (JStr ''''),
       py_or (row_get example_existing ''LAT_WGS84'' JNull) (JStr ''''),
       py_or (row_get example_existing ''RUE_REVERSE'' JNull) (JStr '''')]"
    by (simp add: example_existing_for)
  then have d: "drop 7 example_cells = [JStr ''-73.5'', JStr ''45.5'', JStr ''Rue Test'']"
    by (simp add: example_existing_def row_get_def py_or_def)
  from m rows err p c' d have "\<exists>tr2. sync_main example_str example_iso two_srv
        (Some [example_existing]) =
        Some \<lparr>raised = None, written = Some (HEADER, [example_cells, second_cells]),
              events = tr2\<rparr> \<and>
      projected_points tr2 = [example_point, second_point] \<and>
      length (reverse_calls tr2) \<le> 1 \<and>
      drop 7 example_cells = [JStr ''-73.5'', JStr ''45.5'', JStr ''Rue Test'']"
    by (intro exI [of _ tr2] conjI) simp_all
  with two_srv_fetch two_srv_points q example_existing_for show ?thesis
    by (intro conjI)
qed

end
